theory Spec2Isabelle
  imports Complex_Main
begin

section \<open>JavaScript numbers and their decimal renderings\<close>

text \<open>
  The route handler formats numbers with \<^verbatim>\<open>toFixed(2)\<close>, \<^verbatim>\<open>Math.floor\<close> and template
  literals. A JavaScript number is an IEEE 754 binary64 value. \<open>JNum x\<close> stands for the
  number a JSON body writes as \<open>x\<close>; every operation reads it through \<open>round_double\<close>,
  the round-to-nearest, ties-to-even conversion to binary64 (subnormals and overflow to
  infinity included), so that \<open>JNum x\<close> behaves as the double \<^verbatim>\<open>JSON.parse\<close> makes of it.
  The sign of zero is not kept: no operation used by the handler tells \<open>-0\<close> from \<open>0\<close>.
\<close>

datatype jsnum = JNum rat | JInf | JNegInf | JNaN

text \<open>The number of digits of \<open>n\<close> in base \<open>b\<close>, for \<open>1 \<le> n\<close> and \<open>2 \<le> b\<close>.\<close>

function ndigits :: "int \<Rightarrow> int \<Rightarrow> int" where
  "ndigits b n = (if n < b \<or> b < 2 then 1 else 1 + ndigits b (n div b))"
  by pat_completeness auto
termination
  by (relation "measure (\<lambda>(b, n). nat n)") (auto simp: int_div_less_self)

declare ndigits.simps [simp del]

text \<open>\<open>ilog b x\<close> is the integer \<open>e\<close> with \<open>b ^ e \<le> x < b ^ (e + 1)\<close>, for \<open>0 < x\<close>.\<close>

definition ilog :: "int \<Rightarrow> rat \<Rightarrow> int" where
  "ilog b x = (if 1 \<le> x then ndigits b \<lfloor>x\<rfloor> - 1
               else - ndigits b (\<lceil>1 / x\<rceil> - 1))"

text \<open>\<open>scale b e x\<close> is \<open>x * b ^ e\<close> for an integer exponent of either sign.\<close>

definition scale :: "int \<Rightarrow> int \<Rightarrow> rat \<Rightarrow> rat" where
  "scale b e x = (if 0 \<le> e then x * of_int (b ^ nat e) else x / of_int (b ^ nat (- e)))"

definition round_half_even :: "rat \<Rightarrow> int" where
  "round_half_even y =
     (let f = \<lfloor>y\<rfloor>; d = y - of_int f
      in if d < 1 / 2 then f else if 1 / 2 < d then f + 1
         else if even f then f else f + 1)"

text \<open>
  Binary64 has 53 significant bits and exponents down to \<open>2 ^ - 1074\<close>; a magnitude that
  rounds to \<open>2 ^ 1024\<close> or more is infinite.
\<close>

definition round_double :: "rat \<Rightarrow> jsnum" where
  "round_double x =
     (if x = 0 then JNum 0
      else let q = max (ilog 2 \<bar>x\<bar> - 52) (- 1074);
               m = round_half_even (scale 2 (- q) \<bar>x\<bar>)
           in if 971 < q \<or> (q = 971 \<and> m = 2 ^ 53)
              then (if 0 < x then JInf else JNegInf)
              else JNum (scale 2 q (of_int (if 0 < x then m else - m))))"

definition as_double :: "jsnum \<Rightarrow> jsnum" where
  "as_double v = (case v of JNum x \<Rightarrow> round_double x | _ \<Rightarrow> v)"

definition digit_char :: "int \<Rightarrow> char" where
  "digit_char d = ''0123456789'' ! nat d"

text \<open>The decimal digits of a non-negative integer.\<close>

function digits :: "int \<Rightarrow> string" where
  "digits n = (if n < 10 then [digit_char n] else digits (n div 10) @ [digit_char (n mod 10)])"
  by pat_completeness auto
termination
  by (relation "measure nat") (auto simp: int_div_less_self)

declare digits.simps [simp del]

text \<open>
  \<^verbatim>\<open>Number::toString\<close> (ECMAScript 6.1.6.1.20) prints the shortest digit string \<open>s\<close> of
  \<open>k\<close> digits such that \<open>s * 10 ^ (n - k)\<close> converts back to the number, the closest one
  if several do. \<open>candidates\<close> are the at most two \<open>k\<close>-digit neighbours of \<open>x\<close> that
  convert back; 17 digits always suffice for a double.
\<close>

definition candidates :: "rat \<Rightarrow> int \<Rightarrow> int \<Rightarrow> int list" where
  "candidates x n0 k =
     (let f = \<lfloor>scale 10 (k - n0) x\<rfloor>
      in filter (\<lambda>s. round_double (scale 10 (n0 - k) (of_int s)) = JNum x) [f, f + 1])"

definition closest :: "rat \<Rightarrow> int \<Rightarrow> int \<Rightarrow> int list \<Rightarrow> int" where
  "closest x n0 k ss =
     (case ss of
        [] \<Rightarrow> round_half_even (scale 10 (k - n0) x)
      | [s] \<Rightarrow> s
      | s # t # _ \<Rightarrow>
          (let ds = \<bar>scale 10 (n0 - k) (of_int s) - x\<bar>;
               dt = \<bar>scale 10 (n0 - k) (of_int t) - x\<bar>
           in if ds < dt then s else if dt < ds then t else if even s then s else t))"

fun shortest :: "rat \<Rightarrow> int \<Rightarrow> int list \<Rightarrow> int \<times> int" where
  "shortest x n0 [] = (17, closest x n0 17 [])"
| "shortest x n0 (k # ks) =
     (case candidates x n0 k of [] \<Rightarrow> shortest x n0 ks | ss \<Rightarrow> (k, closest x n0 k ss))"

text \<open>The four layouts of \<^verbatim>\<open>Number::toString\<close>: \<open>n\<close> is the position of the decimal point.\<close>

definition layout :: "int \<Rightarrow> string \<Rightarrow> string" where
  "layout n ds =
     (let k = int (length ds)
      in if k \<le> n \<and> n \<le> 21 then ds @ replicate (nat (n - k)) CHR ''0''
         else if 0 < n \<and> n \<le> 21 then take (nat n) ds @ ''.'' @ drop (nat n) ds
         else if - 6 < n \<and> n \<le> 0 then ''0.'' @ replicate (nat (- n)) CHR ''0'' @ ds
         else (let e = n - 1; sg = (if 0 \<le> e then ''+'' else ''-'')
               in if k = 1 then ds @ ''e'' @ sg @ digits \<bar>e\<bar>
                  else [hd ds] @ ''.'' @ tl ds @ ''e'' @ sg @ digits \<bar>e\<bar>))"

definition toString_pos :: "rat \<Rightarrow> string" where
  "toString_pos x =
     (let n0 = ilog 10 x + 1;
          (k, s) = shortest x n0 [1, 2, 3, 4, 5, 6, 7, 8, 9, 10, 11, 12, 13, 14, 15, 16, 17]
      in if s = 10 ^ nat k then layout (n0 + 1) (digits (s div 10)) else layout n0 (digits s))"

definition toString :: "jsnum \<Rightarrow> string" where
  "toString v =
     (case as_double v of
        JNaN \<Rightarrow> ''NaN''
      | JInf \<Rightarrow> ''Infinity''
      | JNegInf \<Rightarrow> ''-Infinity''
      | JNum y \<Rightarrow> (if y = 0 then ''0'' else if y < 0 then ''-'' @ toString_pos (- y)
                    else toString_pos y))"

text \<open>
  \<^verbatim>\<open>Number.prototype.toFixed(f)\<close> (ECMAScript 21.1.3.3): a number that is not finite, or
  whose magnitude is \<open>10 ^ 21\<close> or more, is printed by \<^verbatim>\<open>Number::toString\<close>; otherwise
  the integer \<open>n\<close> nearest to \<open>x * 10 ^ f\<close> (the larger of two) is printed with a point
  before its last \<open>f\<close> digits.
\<close>

definition toFixed :: "nat \<Rightarrow> jsnum \<Rightarrow> string" where
  "toFixed f v =
     (case as_double v of
        JNum x \<Rightarrow>
          (let s = (if x < 0 then ''-'' else ''''); a = \<bar>x\<bar>
           in if 10 ^ 21 \<le> a then s @ toString (JNum a)
              else (let n = \<lfloor>a * 10 ^ f + 1 / 2\<rfloor>; m = digits n
                    in if f = 0 then s @ m
                       else (let m' = (if length m \<le> f
                                       then replicate (f + 1 - length m) CHR ''0'' @ m else m);
                                 k = length m'
                             in s @ take (k - f) m' @ ''.'' @ drop (k - f) m')))
      | w \<Rightarrow> toString w)"

text \<open>\<^verbatim>\<open>v / c\<close> for a positive literal \<open>c\<close> (the handler divides by 60 and by 1000).\<close>

definition div_by :: "jsnum \<Rightarrow> rat \<Rightarrow> jsnum" where
  "div_by v c = (case as_double v of JNum x \<Rightarrow> round_double (x / c) | w \<Rightarrow> w)"

definition Math_floor :: "jsnum \<Rightarrow> jsnum" where
  "Math_floor v = (case as_double v of JNum x \<Rightarrow> JNum (of_int \<lfloor>x\<rfloor>) | w \<Rightarrow> w)"

text \<open>\<^verbatim>\<open>Array.prototype.join\<close> on an array of strings.\<close>

fun js_join :: "string \<Rightarrow> string list \<Rightarrow> string" where
  "js_join sep [] = []"
| "js_join sep [x] = x"
| "js_join sep (x # y # ys) = x @ sep @ js_join sep (y # ys)"

section \<open>Data model\<close>

text \<open>
  The chat route exists in two versions: the travel planner with historical information
  and hotels, which is the one modelled under the source's names, and the earlier
  \<^verbatim>\<open>src/app/api/chat/route.js\<close>, whose \<^verbatim>\<open>getCoordinates\<close>, \<^verbatim>\<open>getRouteDetails\<close> and
  \<^verbatim>\<open>getPopularPlaces\<close> are the same text and whose aggregate and reply are modelled
  under the suffix \<open>_basic\<close>.

  The handler talks to four HTTP providers through \<^verbatim>\<open>axios.get\<close>. A call either
  rejects (network error, error status) or resolves with the parsed body. A body is typed
  as the handler reads it; a field is optional where the handler itself tests for its
  absence, and the numbers and strings it reads without a test are present, as the
  providers document them. A body in which an object on the path to such a field is
  missing makes the handler throw inside its \<^verbatim>\<open>try\<close>: it takes the branch of a
  rejected call.
\<close>

datatype 'a response = Rejected | Resolved 'a

text \<open>The handler's own results: \<^verbatim>\<open>{success: false, message}\<close> or \<^verbatim>\<open>{success: true, ...}\<close>.\<close>

datatype 'a result = Failure string | Success 'a

record coords =
  lat :: jsnum
  lon :: jsnum

text \<open>One step of a leg of a Mapbox route; \<open>step_instruction\<close> is \<^verbatim>\<open>maneuver.instruction\<close>.\<close>

record step =
  step_name :: "string option"
  step_instruction :: string
  step_distance :: jsnum
  step_duration :: jsnum

text \<open>A route; each leg is given by its \<^verbatim>\<open>steps\<close>.\<close>

record route =
  route_distance :: jsnum
  route_duration :: jsnum
  route_legs :: "step list list"

text \<open>An entry of \<^verbatim>\<open>places\<close> in the result of \<^verbatim>\<open>getRouteDetails\<close>.\<close>

record route_step =
  rs_name :: string
  rs_instruction :: string
  rs_distance :: jsnum
  rs_duration :: jsnum

record route_details =
  rd_duration :: string
  rd_distance :: string
  rd_directions :: string
  rd_places :: "route_step list"

record search_hit =
  hit_title :: string
  hit_pageid :: nat

text \<open>
  The body of a page summary: \<^verbatim>\<open>title\<close>, \<^verbatim>\<open>extract\<close> and
  \<^verbatim>\<open>content_urls.desktop.page\<close>.
\<close>

record page_summary =
  ps_title :: string
  ps_extract :: string
  ps_page :: string

record popular_place =
  pp_title :: string
  pp_description :: string
  pp_url :: string

record history =
  hist_summary :: string
  hist_source :: string

text \<open>
  A Foursquare result: \<^verbatim>\<open>rating\<close> may be absent; \<open>venue_categories\<close> lists the
  \<^verbatim>\<open>name\<close> of each category; \<open>venue_address\<close> is \<^verbatim>\<open>location.formatted_address\<close>.
\<close>

record venue =
  venue_name :: string
  venue_rating :: "jsnum option"
  venue_address :: string
  venue_categories :: "string list"
  venue_fsq_id :: string

text \<open>\<^verbatim>\<open>hotel.rating || 'N/A'\<close> is a number or a string.\<close>

datatype rating = RatingNumber jsnum | RatingText string

record hotel =
  hotel_name :: string
  hotel_rating :: rating
  hotel_address :: string
  hotel_category :: string
  hotel_link :: string

text \<open>The query string of the hotel search.\<close>

record venue_query =
  vq_query :: string
  vq_ll :: coords
  vq_sort :: string
  vq_limit :: nat

text \<open>
  The providers, one function per endpoint. The geocoder answers with the
  \<^verbatim>\<open>geometry.coordinates\<close> of each feature, longitude first. The directions and search
  bodies may lack their list (\<^verbatim>\<open>routes\<close>, \<^verbatim>\<open>query.search\<close>).
\<close>

record providers =
  geocoding :: "string \<Rightarrow> (jsnum \<times> jsnum) list response"
  directions_api :: "string \<Rightarrow> coords \<Rightarrow> coords \<Rightarrow> route list option response"
  wiki_search :: "string \<Rightarrow> search_hit list option response"
  wiki_summary :: "string \<Rightarrow> page_summary response"
  wiki_extract :: "nat \<Rightarrow> string response"
  wiki_info :: "nat \<Rightarrow> string response"
  places_search :: "venue_query \<Rightarrow> venue list response"

text \<open>
  Every function returns, next to its value, the requests it sent, in order. The four
  calls under \<^verbatim>\<open>Promise.all\<close> do not depend on each other's requests; their requests
  are listed call by call.
\<close>

datatype request =
    GeocodeRequest string
  | DirectionsRequest string coords coords
  | SearchRequest string
  | SummaryRequest string
  | ExtractRequest nat
  | InfoRequest nat
  | VenueRequest venue_query

record travel_plan =
  plan_duration :: string
  plan_distance :: string
  plan_directions :: string
  placesAlongRoute :: "route_step list"
  popularPlaces :: "popular_place list"
  historicalInfo :: "history option"
  hotels :: "hotel list"
  mapboxUrl :: string
  googleMapsUrl :: string

section \<open>The providers' wrappers\<close>

definition getCoordinates :: "providers \<Rightarrow> string \<Rightarrow> coords option \<times> request list" where
  "getCoordinates P location =
     (case geocoding P location of
        Rejected \<Rightarrow> None
      | Resolved [] \<Rightarrow> None
      | Resolved ((lo, la) # _) \<Rightarrow> Some \<lparr>lat = la, lon = lo\<rparr>,
      [GeocodeRequest location])"

text \<open>\<^verbatim>\<open>step.name && step.name !== ""\<close>\<close>

definition named :: "step \<Rightarrow> bool" where
  "named st = (case step_name st of None \<Rightarrow> False | Some n \<Rightarrow> n \<noteq> [])"

text \<open>The object pushed to \<^verbatim>\<open>places\<close> for a step that has a name.\<close>

definition step_place :: "step \<Rightarrow> route_step" where
  "step_place st =
     \<lparr>rs_name = (case step_name st of None \<Rightarrow> [] | Some n \<Rightarrow> n),
      rs_instruction = step_instruction st,
      rs_distance = step_distance st,
      rs_duration = step_duration st\<rparr>"

text \<open>The body of the \<^verbatim>\<open>forEach\<close> over the steps: two arrays grow by \<^verbatim>\<open>push\<close>.\<close>

definition push_step :: "step \<Rightarrow> string list \<times> route_step list \<Rightarrow> string list \<times> route_step list" where
  "push_step st acc =
     (case acc of (directions, places) \<Rightarrow>
        (directions @ [step_instruction st],
         if named st then places @ [step_place st] else places))"

text \<open>
  \<^verbatim>\<open>legs[0].steps\<close> of a route without legs throws inside the \<^verbatim>\<open>try\<close>, which the
  \<^verbatim>\<open>catch\<close> turns into the Mapbox failure.
\<close>

definition getRouteDetails ::
  "providers \<Rightarrow> coords \<Rightarrow> coords \<Rightarrow> string \<Rightarrow> route_details result \<times> request list" where
  "getRouteDetails P origin destination travelMode =
     (case directions_api P travelMode origin destination of
        Rejected \<Rightarrow> Failure ''Failed to get route details from Mapbox.''
      | Resolved None \<Rightarrow> Failure ''No routes found. Please check the origin and destination.''
      | Resolved (Some []) \<Rightarrow> Failure ''No routes found. Please check the origin and destination.''
      | Resolved (Some (bestRoute # _)) \<Rightarrow>
          (case route_legs bestRoute of
             [] \<Rightarrow> Failure ''Failed to get route details from Mapbox.''
           | steps # _ \<Rightarrow>
               (case fold push_step steps ([], []) of (directions, places) \<Rightarrow>
                  Success \<lparr>rd_duration =
                             toString (Math_floor (div_by (route_duration bestRoute) 60)) @ '' minutes'',
                           rd_distance =
                             toFixed 2 (div_by (route_distance bestRoute) 1000) @ '' km'',
                           rd_directions = js_join '' -> '' directions,
                           rd_places = places\<rparr>)),
      [DirectionsRequest travelMode origin destination])"

text \<open>The object pushed to \<^verbatim>\<open>places\<close> for a page summary.\<close>

definition summary_place :: "page_summary \<Rightarrow> popular_place" where
  "summary_place summaryData =
     \<lparr>pp_title = ps_title summaryData,
      pp_description = ps_extract summaryData,
      pp_url = ps_page summaryData\<rparr>"

text \<open>
  The loop of \<^verbatim>\<open>getPopularPlaces\<close>, from index \<open>i\<close>: one summary request per search
  result, at most five. A rejected request leaves the loop through the \<^verbatim>\<open>catch\<close>
  (\<open>None\<close>); the array built so far is dropped with it.
\<close>

function fetch_summaries ::
  "providers \<Rightarrow> search_hit list \<Rightarrow> nat \<Rightarrow> popular_place list \<Rightarrow> request list
     \<Rightarrow> popular_place list option \<times> request list" where
  "fetch_summaries P searchResults i places sent =
     (if i < min (length searchResults) 5
      then (let pageTitle = hit_title (searchResults ! i)
            in case wiki_summary P pageTitle of
                 Rejected \<Rightarrow> (None, sent @ [SummaryRequest pageTitle])
               | Resolved summaryData \<Rightarrow>
                   fetch_summaries P searchResults (i + 1)
                     (places @ [summary_place summaryData])
                     (sent @ [SummaryRequest pageTitle]))
      else (Some places, sent))"
  by pat_completeness auto
termination
  by (relation "measure (\<lambda>(P, searchResults, i, places, sent). min (length searchResults) 5 - i)")
    auto

declare fetch_summaries.simps [simp del]

definition getPopularPlaces ::
  "providers \<Rightarrow> string \<Rightarrow> popular_place list result \<times> request list" where
  "getPopularPlaces P location =
     (let query = location @ '' tourist attractions''
      in case wiki_search P query of
           Rejected \<Rightarrow>
             (Failure ''Failed to get popular places from Wikipedia.'', [SearchRequest query])
         | Resolved None \<Rightarrow>
             (Failure ''No popular places found at the destination.'', [SearchRequest query])
         | Resolved (Some searchResults) \<Rightarrow>
             if searchResults = []
             then (Failure ''No popular places found at the destination.'', [SearchRequest query])
             else (case fetch_summaries P searchResults 0 [] [SearchRequest query] of
                     (None, sent) \<Rightarrow>
                       (Failure ''Failed to get popular places from Wikipedia.'', sent)
                   | (Some places, sent) \<Rightarrow> (Success places, sent)))"

text \<open>
  \<^verbatim>\<open>search[0]?.pageid\<close>: a body without \<^verbatim>\<open>search\<close> throws, an empty list or a page
  id of 0 gives a falsy \<^verbatim>\<open>pageId\<close>.
\<close>

definition getHistoricalInfo :: "providers \<Rightarrow> string \<Rightarrow> history result \<times> request list" where
  "getHistoricalInfo P location =
     (case wiki_search P location of
        Rejected \<Rightarrow> (Failure ''Failed to fetch historical information.'', [SearchRequest location])
      | Resolved None \<Rightarrow>
          (Failure ''Failed to fetch historical information.'', [SearchRequest location])
      | Resolved (Some []) \<Rightarrow>
          (Failure ''No historical information found.'', [SearchRequest location])
      | Resolved (Some (first # _)) \<Rightarrow>
          (let pageId = hit_pageid first
           in if pageId = 0
              then (Failure ''No historical information found.'', [SearchRequest location])
              else (case wiki_extract P pageId of
                      Rejected \<Rightarrow>
                        (Failure ''Failed to fetch historical information.'',
                         [SearchRequest location, ExtractRequest pageId])
                    | Resolved extract \<Rightarrow>
                        (case wiki_info P pageId of
                           Rejected \<Rightarrow>
                             (Failure ''Failed to fetch historical information.'',
                              [SearchRequest location, ExtractRequest pageId, InfoRequest pageId])
                         | Resolved pageUrl \<Rightarrow>
                             (Success \<lparr>hist_summary = extract, hist_source = pageUrl\<rparr>,
                              [SearchRequest location, ExtractRequest pageId,
                               InfoRequest pageId])))))"

text \<open>A number is falsy when it is 0 or NaN; the empty string is falsy.\<close>

definition truthy_number :: "jsnum \<Rightarrow> bool" where
  "truthy_number v = (case as_double v of JNum x \<Rightarrow> x \<noteq> 0 | JNaN \<Rightarrow> False | _ \<Rightarrow> True)"

definition to_hotel :: "venue \<Rightarrow> hotel" where
  "to_hotel v =
     \<lparr>hotel_name = venue_name v,
      hotel_rating = (case venue_rating v of
                        None \<Rightarrow> RatingText ''N/A''
                      | Some r \<Rightarrow> if truthy_number r then RatingNumber r else RatingText ''N/A''),
      hotel_address = venue_address v,
      hotel_category = (case venue_categories v of
                          [] \<Rightarrow> ''Hotel''
                        | c # _ \<Rightarrow> if c \<noteq> [] then c else ''Hotel''),
      hotel_link = ''https://foursquare.com/v/'' @ venue_fsq_id v\<rparr>"

definition hotel_query :: "coords \<Rightarrow> venue_query" where
  "hotel_query coordinates =
     \<lparr>vq_query = ''hotel'', vq_ll = coordinates, vq_sort = ''RATING'', vq_limit = 5\<rparr>"

definition getHotelRecommendations ::
  "providers \<Rightarrow> coords \<Rightarrow> hotel list result \<times> request list" where
  "getHotelRecommendations P coordinates =
     (case places_search P (hotel_query coordinates) of
        Rejected \<Rightarrow> Failure ''Failed to fetch hotel recommendations.''
      | Resolved results \<Rightarrow> Success (map to_hotel results),
      [VenueRequest (hotel_query coordinates)])"

section \<open>The aggregate\<close>

definition mapboxDirectionsUrl :: "coords \<Rightarrow> coords \<Rightarrow> string \<Rightarrow> string" where
  "mapboxDirectionsUrl originCoords destinationCoords travelMode =
     ''https://www.mapbox.com/directions/?start='' @ toString (lon originCoords) @ '','' @
     toString (lat originCoords) @ ''&end='' @ toString (lon destinationCoords) @ '','' @
     toString (lat destinationCoords) @ ''&profile='' @ travelMode"

definition googleMapsDirectionsUrl :: "coords \<Rightarrow> coords \<Rightarrow> string \<Rightarrow> string" where
  "googleMapsDirectionsUrl originCoords destinationCoords travelMode =
     ''https://www.google.com/maps/dir/?api=1&origin='' @ toString (lat originCoords) @ '','' @
     toString (lon originCoords) @ ''&destination='' @ toString (lat destinationCoords) @ '','' @
     toString (lon destinationCoords) @ ''&travelmode='' @ travelMode"

text \<open>\<^verbatim>\<open>x.success ? x.field : fallback\<close>\<close>

definition or_else :: "'a result \<Rightarrow> 'b \<Rightarrow> ('a \<Rightarrow> 'b) \<Rightarrow> 'b" where
  "or_else r fallback f = (case r of Failure _ \<Rightarrow> fallback | Success x \<Rightarrow> f x)"

definition getRouteAndDetails ::
  "providers \<Rightarrow> string \<Rightarrow> string \<Rightarrow> string \<Rightarrow> travel_plan result \<times> request list" where
  "getRouteAndDetails P origin destination travelMode =
     (case getCoordinates P origin of (originCoords, sent1) \<Rightarrow>
      case getCoordinates P destination of (destinationCoords, sent2) \<Rightarrow>
      case (originCoords, destinationCoords) of
        (Some oc, Some dc) \<Rightarrow>
          (case getRouteDetails P oc dc travelMode of (routeResult, sent3) \<Rightarrow>
           case getPopularPlaces P destination of (popular, sent4) \<Rightarrow>
           case getHistoricalInfo P destination of (historical, sent5) \<Rightarrow>
           case getHotelRecommendations P dc of (lodging, sent6) \<Rightarrow>
             (case routeResult of
                Failure message \<Rightarrow> Failure message
              | Success r \<Rightarrow>
                  Success \<lparr>plan_duration = rd_duration r,
                           plan_distance = rd_distance r,
                           plan_directions = rd_directions r,
                           placesAlongRoute = rd_places r,
                           popularPlaces = or_else popular [] (\<lambda>places. places),
                           historicalInfo = or_else historical None Some,
                           hotels = or_else lodging [] (\<lambda>hs. hs),
                           mapboxUrl = mapboxDirectionsUrl oc dc travelMode,
                           googleMapsUrl = googleMapsDirectionsUrl oc dc travelMode\<rparr>,
              sent1 @ sent2 @ sent3 @ sent4 @ sent5 @ sent6))
      | _ \<Rightarrow>
          (Failure ''Failed to get coordinates for origin or destination.'', sent1 @ sent2))"

text \<open>
  The \<^verbatim>\<open>getRouteAndDetails\<close> of the earlier handler awaits the route before it asks for
  the popular places, and knows neither history nor hotels.
\<close>

record basic_plan =
  bp_duration :: string
  bp_distance :: string
  bp_directions :: string
  bp_placesAlongRoute :: "route_step list"
  bp_popularPlaces :: "popular_place list"
  bp_mapboxUrl :: string
  bp_googleMapsUrl :: string

definition getRouteAndDetails_basic ::
  "providers \<Rightarrow> string \<Rightarrow> string \<Rightarrow> string \<Rightarrow> basic_plan result \<times> request list" where
  "getRouteAndDetails_basic P origin destination travelMode =
     (case getCoordinates P origin of (originCoords, sent1) \<Rightarrow>
      case getCoordinates P destination of (destinationCoords, sent2) \<Rightarrow>
      case (originCoords, destinationCoords) of
        (Some oc, Some dc) \<Rightarrow>
          (case getRouteDetails P oc dc travelMode of
             (Failure message, sent3) \<Rightarrow> (Failure message, sent1 @ sent2 @ sent3)
           | (Success r, sent3) \<Rightarrow>
               (case getPopularPlaces P destination of (popular, sent4) \<Rightarrow>
                  (Success \<lparr>bp_duration = rd_duration r,
                            bp_distance = rd_distance r,
                            bp_directions = rd_directions r,
                            bp_placesAlongRoute = rd_places r,
                            bp_popularPlaces = or_else popular [] (\<lambda>places. places),
                            bp_mapboxUrl = mapboxDirectionsUrl oc dc travelMode,
                            bp_googleMapsUrl = googleMapsDirectionsUrl oc dc travelMode\<rparr>,
                   sent1 @ sent2 @ sent3 @ sent4)))
      | _ \<Rightarrow>
          (Failure ''Failed to get coordinates for origin or destination.'', sent1 @ sent2))"

section \<open>Rendering the reply\<close>

definition nl :: string where
  "nl = [CHR 0x0A]"

text \<open>\<^verbatim>\<open>xs.map((x, index) => f(x, index))\<close>, from index \<open>i\<close>.\<close>

fun map_indexed :: "('a \<Rightarrow> nat \<Rightarrow> 'b) \<Rightarrow> nat \<Rightarrow> 'a list \<Rightarrow> 'b list" where
  "map_indexed f i [] = []"
| "map_indexed f i (x # xs) = f x i # map_indexed f (Suc i) xs"

text \<open>\<^verbatim>\<open>${index + 1}\<close>: an array index plus one is a small whole number, printed by its digits.\<close>

definition ordinal :: "nat \<Rightarrow> string" where
  "ordinal index = digits (int index + 1)"

definition route_step_line :: "route_step \<Rightarrow> nat \<Rightarrow> string" where
  "route_step_line p index =
     ordinal index @ ''. '' @ rs_name p @ '': '' @ rs_instruction p @ '' ('' @
     toFixed 2 (rs_distance p) @ '' m, '' @
     toString (Math_floor (div_by (rs_duration p) 60)) @ '' min)''"

definition popular_place_line :: "popular_place \<Rightarrow> nat \<Rightarrow> string" where
  "popular_place_line p index =
     ordinal index @ ''. ['' @ pp_title p @ '']('' @ pp_url p @ ''): '' @ pp_description p"

definition rating_text :: "rating \<Rightarrow> string" where
  "rating_text r = (case r of RatingNumber v \<Rightarrow> toString v | RatingText t \<Rightarrow> t)"

definition hotel_line :: "hotel \<Rightarrow> nat \<Rightarrow> string" where
  "hotel_line h index =
     ordinal index @ ''. ['' @ hotel_name h @ '']('' @ hotel_link h @ '') - '' @
     hotel_category h @ '' (Rating: '' @ rating_text (hotel_rating h) @ '')'' @ nl @
     ''   Address: '' @ hotel_address h"

text \<open>The items of \<^verbatim>\<open>placesAlongRouteDescription\<close>, before they are joined.\<close>

definition placesAlongRouteItems :: "route_step list \<Rightarrow> string list" where
  "placesAlongRouteItems places = map_indexed route_step_line 0 (take 5 places)"

definition placesAlongRouteDescription :: "route_step list \<Rightarrow> string" where
  "placesAlongRouteDescription places = js_join nl (placesAlongRouteItems places)"

definition popularPlacesDescription :: "popular_place list \<Rightarrow> string" where
  "popularPlacesDescription places = js_join nl (map_indexed popular_place_line 0 places)"

definition hotelRecommendations :: "hotel list \<Rightarrow> string" where
  "hotelRecommendations hs = js_join nl (map_indexed hotel_line 0 hs)"

definition historical_summary :: "history option \<Rightarrow> string" where
  "historical_summary info =
     (case info of
        Some h \<Rightarrow> hist_summary h
      | None \<Rightarrow> ''No historical information available.'')"

definition historical_source :: "history option \<Rightarrow> string" where
  "historical_source info =
     (case info of
        Some h \<Rightarrow> nl @ ''Read more: '' @ hist_source h
      | None \<Rightarrow> [])"

text \<open>The template literal of the reply, line by line.\<close>

definition render :: "string \<Rightarrow> string \<Rightarrow> travel_plan \<Rightarrow> string" where
  "render origin destination result =
     ''Travel Plan: '' @ origin @ '' to '' @ destination @ nl @
     nl @
     ''Route Information:'' @ nl @
     ''- Duration: '' @ plan_duration result @ nl @
     ''- Distance: '' @ plan_distance result @ nl @
     nl @
     ''Detailed directions: '' @ plan_directions result @ nl @
     nl @
     ''Historical Information about '' @ destination @ '':'' @ nl @
     historical_summary (historicalInfo result) @ nl @
     historical_source (historicalInfo result) @ nl @
     nl @
     ''Notable places along the route:'' @ nl @
     placesAlongRouteDescription (placesAlongRoute result) @ nl @
     nl @
     ''Popular places to visit at '' @ destination @ '':'' @ nl @
     popularPlacesDescription (popularPlaces result) @ nl @
     nl @
     ''Recommended Hotels:'' @ nl @
     hotelRecommendations (hotels result) @ nl @
     nl @
     ''Interactive Maps:'' @ nl @
     ''- [Google Maps Directions]('' @ googleMapsUrl result @ '')'' @ nl @
     nl @
     ''Note: Click the links to view interactive maps and more details about places and hotels.''"

text \<open>\<^verbatim>\<open>travelMode\<close> is optional and defaults to \<^verbatim>\<open>'driving'\<close>.\<close>

definition mode_or_default :: "string option \<Rightarrow> string" where
  "mode_or_default travelMode = (case travelMode of None \<Rightarrow> ''driving'' | Some m \<Rightarrow> m)"

text \<open>
  The tool's \<^verbatim>\<open>execute\<close>. Nothing in its \<^verbatim>\<open>try\<close> block throws on bodies of the
  types above, so the \<^verbatim>\<open>catch\<close> has no branch here.
\<close>

definition execute ::
  "providers \<Rightarrow> string \<Rightarrow> string \<Rightarrow> string option \<Rightarrow> string \<times> request list" where
  "execute P origin destination travelMode =
     (case getRouteAndDetails P origin destination (mode_or_default travelMode) of
        (Success result, sent) \<Rightarrow> (render origin destination result, sent)
      | (Failure message, sent) \<Rightarrow> (message, sent))"

text \<open>The reply of the earlier handler.\<close>

definition render_basic :: "string \<Rightarrow> string \<Rightarrow> basic_plan \<Rightarrow> string" where
  "render_basic origin destination result =
     ''The best route from '' @ origin @ '' to '' @ destination @
     '' will take approximately '' @ bp_duration result @ '', covering a distance of '' @
     bp_distance result @ ''.'' @ nl @
     nl @
     ''Detailed directions: '' @ bp_directions result @ nl @
     nl @
     ''Notable places along the route:'' @ nl @
     placesAlongRouteDescription (bp_placesAlongRoute result) @ nl @
     nl @
     ''Popular places to visit at '' @ destination @ '':'' @ nl @
     popularPlacesDescription (bp_popularPlaces result) @ nl @
     nl @
     ''You can view the interactive route maps here:'' @ nl @
     nl @
     ''- [Google Maps Directions]('' @ bp_googleMapsUrl result @ '')'' @ nl @
     nl @
     ''Note: These links will open the respective directions interface, allowing you to view the route and directions interactively.''"

definition execute_basic ::
  "providers \<Rightarrow> string \<Rightarrow> string \<Rightarrow> string option \<Rightarrow> string \<times> request list" where
  "execute_basic P origin destination travelMode =
     (case getRouteAndDetails_basic P origin destination (mode_or_default travelMode) of
        (Success result, sent) \<Rightarrow> (render_basic origin destination result, sent)
      | (Failure message, sent) \<Rightarrow> (message, sent))"

section \<open>Shapes of rendered numbers\<close>

definition is_digit :: "char \<Rightarrow> bool" where
  "is_digit c = (c \<in> set ''0123456789'')"

text \<open>
  A rendering with exactly two decimal places: an optional minus sign, one digit or more,
  a point and two digits.
\<close>

definition two_decimal_places :: "string \<Rightarrow> bool" where
  "two_decimal_places s =
     (case rev (case s of [] \<Rightarrow> [] | c # r \<Rightarrow> if c = CHR ''-'' then r else s) of
        b # a # p # w \<Rightarrow>
          is_digit b \<and> is_digit a \<and> p = CHR ''.'' \<and> w \<noteq> [] \<and> list_all is_digit w
      | _ \<Rightarrow> False)"

definition two_decimal_km :: "string \<Rightarrow> bool" where
  "two_decimal_km s =
     (3 \<le> length s \<and> drop (length s - 3) s = '' km'' \<and>
      two_decimal_places (take (length s - 3) s))"

definition failed :: "'a result \<Rightarrow> bool" where
  "failed r = (case r of Failure _ \<Rightarrow> True | Success _ \<Rightarrow> False)"

text \<open>
  The object \<^verbatim>\<open>getRouteAndDetails\<close> returns once the route \<open>r\<close> is found, written with
  the results of the three other wrappers.
\<close>

definition assemble ::
  "providers \<Rightarrow> string \<Rightarrow> string \<Rightarrow> coords \<Rightarrow> coords \<Rightarrow> route_details \<Rightarrow> travel_plan" where
  "assemble P destination travelMode oc dc r =
     \<lparr>plan_duration = rd_duration r,
      plan_distance = rd_distance r,
      plan_directions = rd_directions r,
      placesAlongRoute = rd_places r,
      popularPlaces = or_else (fst (getPopularPlaces P destination)) [] (\<lambda>places. places),
      historicalInfo = or_else (fst (getHistoricalInfo P destination)) None Some,
      hotels = or_else (fst (getHotelRecommendations P dc)) [] (\<lambda>hs. hs),
      mapboxUrl = mapboxDirectionsUrl oc dc travelMode,
      googleMapsUrl = googleMapsDirectionsUrl oc dc travelMode\<rparr>"

section \<open>Sample providers\<close>

text \<open>
  A set of providers that answers every request for a trip from Pune to Goa, and variants
  of it in which single providers fail. They are the concrete inputs at which the theorems
  below are run.
\<close>

definition pune :: coords where
  "pune = \<lparr>lat = JNum (37 / 2), lon = JNum (591 / 8)\<rparr>"

definition goa :: coords where
  "goa = \<lparr>lat = JNum (31 / 2), lon = JNum (295 / 4)\<rparr>"

definition sample_steps :: "step list" where
  "sample_steps =
     [\<lparr>step_name = Some ''MG Road'', step_instruction = ''Head north'',
       step_distance = JNum (2401 / 2), step_duration = JNum 95\<rparr>,
      \<lparr>step_name = None, step_instruction = ''Turn left'',
       step_distance = JNum 80, step_duration = JNum 12\<rparr>,
      \<lparr>step_name = Some ''NH 48'', step_instruction = ''Merge right'',
       step_distance = JNum 350000, step_duration = JNum 14400\<rparr>,
      \<lparr>step_name = Some [], step_instruction = ''Keep straight'',
       step_distance = JNum 500, step_duration = JNum 40\<rparr>,
      \<lparr>step_name = Some ''NH 66'', step_instruction = ''Take the exit'',
       step_distance = JNum 90000, step_duration = JNum 5400\<rparr>,
      \<lparr>step_name = Some ''Mandovi Bridge'', step_instruction = ''Cross the river'',
       step_distance = JNum 700, step_duration = JNum 61\<rparr>,
      \<lparr>step_name = Some ''Beach Road'', step_instruction = ''Turn right'',
       step_distance = JNum 1500, step_duration = JNum 125\<rparr>,
      \<lparr>step_name = Some ''Church Street'', step_instruction = ''Turn left again'',
       step_distance = JNum 300, step_duration = JNum 59\<rparr>,
      \<lparr>step_name = Some ''Market Lane'', step_instruction = ''Arrive'',
       step_distance = JNum 20, step_duration = JNum 5\<rparr>]"

definition sample_route :: route where
  "sample_route =
     \<lparr>route_distance = JNum 1500, route_duration = JNum 125, route_legs = [sample_steps]\<rparr>"

definition sample_hits :: "search_hit list" where
  "sample_hits =
     [\<lparr>hit_title = ''Aguada'', hit_pageid = 11\<rparr>, \<lparr>hit_title = ''Calangute'', hit_pageid = 12\<rparr>,
      \<lparr>hit_title = ''Dudhsagar'', hit_pageid = 13\<rparr>, \<lparr>hit_title = ''Anjuna'', hit_pageid = 14\<rparr>,
      \<lparr>hit_title = ''Palolem'', hit_pageid = 15\<rparr>, \<lparr>hit_title = ''Colva'', hit_pageid = 16\<rparr>]"

definition sample_venues :: "venue list" where
  "sample_venues =
     [\<lparr>venue_name = ''Sea View'', venue_rating = None, venue_address = ''Beach Road'',
       venue_categories = [], venue_fsq_id = ''a1''\<rparr>,
      \<lparr>venue_name = ''Casa Goa'', venue_rating = Some (JNum (17 / 2)),
       venue_address = ''Church Street'', venue_categories = [''Resort'', ''Hotel''],
       venue_fsq_id = ''b2''\<rparr>]"

definition sample :: providers where
  "sample =
     \<lparr>geocoding = (\<lambda>location.
        if location = ''Pune'' then Resolved [(lon pune, lat pune)]
        else if location = ''Goa'' then Resolved [(lon goa, lat goa), (JNum 0, JNum 0)]
        else Resolved []),
      directions_api = (\<lambda>travelMode origin destination. Resolved (Some [sample_route])),
      wiki_search = (\<lambda>query.
        if query = ''Goa tourist attractions'' then Resolved (Some sample_hits)
        else if query = ''Goa'' then Resolved (Some [\<lparr>hit_title = ''Goa'', hit_pageid = 42\<rparr>])
        else Resolved (Some [])),
      wiki_summary = (\<lambda>title.
        Resolved \<lparr>ps_title = title, ps_extract = ''About '' @ title,
                  ps_page = ''https://en.wikipedia.org/wiki/'' @ title\<rparr>),
      wiki_extract = (\<lambda>pageId. if pageId = 42 then Resolved ''Goa is a state of India.''
        else Rejected),
      wiki_info = (\<lambda>pageId. if pageId = 42 then Resolved ''https://en.wikipedia.org/wiki/Goa''
        else Rejected),
      places_search = (\<lambda>query. Resolved sample_venues)\<rparr>"

text \<open>The knowledge base and the hotel search are down.\<close>

definition no_aux :: providers where
  "no_aux = sample\<lparr>wiki_search := (\<lambda>query. Rejected), places_search := (\<lambda>query. Rejected)\<rparr>"

text \<open>Only the hotel search is down.\<close>

definition no_hotels :: providers where
  "no_hotels = sample\<lparr>places_search := (\<lambda>query. Rejected)\<rparr>"

text \<open>The directions provider finds no route.\<close>

definition no_routes :: providers where
  "no_routes = sample\<lparr>directions_api := (\<lambda>travelMode origin destination. Resolved (Some []))\<rparr>"

text \<open>A route of \<open>10 ^ 24\<close> metres.\<close>

definition far :: providers where
  "far = sample\<lparr>directions_api := (\<lambda>travelMode origin destination.
           Resolved (Some [sample_route\<lparr>route_distance := JNum (10 ^ 24)\<rparr>]))\<rparr>"

text \<open>The hotel search answers with six results.\<close>

definition crowded :: providers where
  "crowded = sample\<lparr>places_search := (\<lambda>query.
               Resolved (sample_venues @ sample_venues @ sample_venues))\<rparr>"

text \<open>The summary of the third search result cannot be fetched.\<close>

definition flaky :: providers where
  "flaky = sample\<lparr>wiki_summary := (\<lambda>title.
             if title = ''Dudhsagar'' then Rejected else wiki_summary sample title)\<rparr>"

section \<open>Properties of the wrappers and of the aggregate\<close>

lemma getCoordinates_sent: "snd (getCoordinates P location) = [GeocodeRequest location]"
  by (simp add: getCoordinates_def)

lemma getRouteDetails_sent:
  "snd (getRouteDetails P origin destination travelMode) =
     [DirectionsRequest travelMode origin destination]"
  by (simp add: getRouteDetails_def)

lemma getRouteAndDetails_no_coords:
  assumes "fst (getCoordinates P origin) = None \<or> fst (getCoordinates P destination) = None"
  shows "getRouteAndDetails P origin destination travelMode =
           (Failure ''Failed to get coordinates for origin or destination.'',
            [GeocodeRequest origin, GeocodeRequest destination])"
  using assms getCoordinates_sent [of P origin] getCoordinates_sent [of P destination]
  by (auto simp: getRouteAndDetails_def split: prod.splits option.splits)

lemma getRouteAndDetails_coords:
  assumes "fst (getCoordinates P origin) = Some oc"
    and "fst (getCoordinates P destination) = Some dc"
  shows "getRouteAndDetails P origin destination travelMode =
           (case fst (getRouteDetails P oc dc travelMode) of
              Failure message \<Rightarrow> Failure message
            | Success r \<Rightarrow> Success (assemble P destination travelMode oc dc r),
            [GeocodeRequest origin, GeocodeRequest destination,
             DirectionsRequest travelMode oc dc] @
            snd (getPopularPlaces P destination) @ snd (getHistoricalInfo P destination) @
            snd (getHotelRecommendations P dc))"
  using assms getCoordinates_sent [of P origin] getCoordinates_sent [of P destination]
    getRouteDetails_sent [of P oc dc travelMode]
  by (auto simp: getRouteAndDetails_def assemble_def split: prod.splits option.splits result.splits)

lemma getRouteAndDetails_Success:
  "fst (getRouteAndDetails P origin destination travelMode) = Success plan \<longleftrightarrow>
     (\<exists>oc dc r. fst (getCoordinates P origin) = Some oc \<and>
        fst (getCoordinates P destination) = Some dc \<and>
        fst (getRouteDetails P oc dc travelMode) = Success r \<and>
        plan = assemble P destination travelMode oc dc r)"
proof (cases "fst (getCoordinates P origin)")
  case None
  then show ?thesis by (simp add: getRouteAndDetails_no_coords)
next
  case o: (Some oc)
  show ?thesis
  proof (cases "fst (getCoordinates P destination)")
    case None
    then show ?thesis by (simp add: getRouteAndDetails_no_coords)
  next
    case (Some dc)
    show ?thesis
      using o Some
      by (cases "fst (getRouteDetails P oc dc travelMode)")
        (auto simp: getRouteAndDetails_coords [OF o Some])
  qed
qed

lemma getRouteAndDetails_basic_no_coords:
  assumes "fst (getCoordinates P origin) = None \<or> fst (getCoordinates P destination) = None"
  shows "getRouteAndDetails_basic P origin destination travelMode =
           (Failure ''Failed to get coordinates for origin or destination.'',
            [GeocodeRequest origin, GeocodeRequest destination])"
  using assms getCoordinates_sent [of P origin] getCoordinates_sent [of P destination]
  by (auto simp: getRouteAndDetails_basic_def split: prod.splits option.splits)

lemma getRouteAndDetails_basic_no_route:
  assumes "fst (getCoordinates P origin) = Some oc"
    and "fst (getCoordinates P destination) = Some dc"
    and "fst (getRouteDetails P oc dc travelMode) = Failure message"
  shows "getRouteAndDetails_basic P origin destination travelMode =
           (Failure message,
            [GeocodeRequest origin, GeocodeRequest destination,
             DirectionsRequest travelMode oc dc])"
  using assms getCoordinates_sent [of P origin] getCoordinates_sent [of P destination]
    getRouteDetails_sent [of P oc dc travelMode]
  by (auto simp: getRouteAndDetails_basic_def split: prod.splits option.splits result.splits)

lemma getRouteAndDetails_basic_route:
  assumes "fst (getCoordinates P origin) = Some oc"
    and "fst (getCoordinates P destination) = Some dc"
    and "fst (getRouteDetails P oc dc travelMode) = Success r"
  shows "fst (getRouteAndDetails_basic P origin destination travelMode) =
           Success \<lparr>bp_duration = rd_duration r,
                    bp_distance = rd_distance r,
                    bp_directions = rd_directions r,
                    bp_placesAlongRoute = rd_places r,
                    bp_popularPlaces =
                      or_else (fst (getPopularPlaces P destination)) [] (\<lambda>places. places),
                    bp_mapboxUrl = mapboxDirectionsUrl oc dc travelMode,
                    bp_googleMapsUrl = googleMapsDirectionsUrl oc dc travelMode\<rparr>"
  using assms
  by (auto simp: getRouteAndDetails_basic_def split: prod.splits option.splits result.splits)

lemma fold_push_step:
  "fold push_step steps (ds, ps) =
     (ds @ map step_instruction steps, ps @ map step_place (filter named steps))"
  by (induction steps arbitrary: ds ps) (simp_all add: push_step_def)

lemma getRouteDetails_first_leg:
  assumes "directions_api P travelMode origin destination = Resolved (Some (bestRoute # others))"
    and "route_legs bestRoute = steps # legs"
  shows "fst (getRouteDetails P origin destination travelMode) =
           Success \<lparr>rd_duration =
                      toString (Math_floor (div_by (route_duration bestRoute) 60)) @ '' minutes'',
                    rd_distance = toFixed 2 (div_by (route_distance bestRoute) 1000) @ '' km'',
                    rd_directions = js_join '' -> '' (map step_instruction steps),
                    rd_places = map step_place (filter named steps)\<rparr>"
  using assms by (simp add: getRouteDetails_def fold_push_step)

lemma getRouteDetails_no_routes:
  assumes "directions_api P travelMode origin destination = Resolved None \<or>
           directions_api P travelMode origin destination = Resolved (Some [])"
  shows "fst (getRouteDetails P origin destination travelMode) =
           Failure ''No routes found. Please check the origin and destination.''"
  using assms by (auto simp: getRouteDetails_def)

lemma execute_Success:
  assumes "fst (getRouteAndDetails P origin destination (mode_or_default travelMode)) = Success plan"
  shows "fst (execute P origin destination travelMode) = render origin destination plan"
  using assms by (auto simp: execute_def split: prod.splits result.splits)

lemma execute_basic_Success:
  assumes "fst (getRouteAndDetails_basic P origin destination (mode_or_default travelMode)) = Success plan"
  shows "fst (execute_basic P origin destination travelMode) = render_basic origin destination plan"
  using assms by (auto simp: execute_basic_def split: prod.splits result.splits)

lemma length_map_indexed: "length (map_indexed f i xs) = length xs"
  by (induction xs arbitrary: i) simp_all

lemma nth_map_indexed: "j < length xs \<Longrightarrow> map_indexed f i xs ! j = f (xs ! j) (i + j)"
proof (induction xs arbitrary: i j)
  case Nil
  then show ?case by simp
next
  case (Cons x xs)
  then show ?case by (cases j) simp_all
qed

lemma named_names:
  "map (\<lambda>p. Some (rs_name p)) (map step_place (filter named steps)) =
     filter (\<lambda>n. n \<noteq> None \<and> n \<noteq> Some []) (map step_name steps)"
  by (induction steps) (auto simp: named_def step_place_def split: option.splits)

section \<open>The summary loop\<close>

lemma fetch_summaries_done:
  "\<not> i < min (length hs) 5 \<Longrightarrow> fetch_summaries P hs i acc sent = (Some acc, sent)"
  by (subst fetch_summaries.simps) auto

lemma fetch_summaries_stop:
  "i < min (length hs) 5 \<Longrightarrow> wiki_summary P (hit_title (hs ! i)) = Rejected \<Longrightarrow>
     fetch_summaries P hs i acc sent = (None, sent @ [SummaryRequest (hit_title (hs ! i))])"
  by (subst fetch_summaries.simps) (simp add: Let_def)

lemma fetch_summaries_next:
  "i < min (length hs) 5 \<Longrightarrow> wiki_summary P (hit_title (hs ! i)) = Resolved s \<Longrightarrow>
     fetch_summaries P hs i acc sent =
       fetch_summaries P hs (i + 1) (acc @ [summary_place s])
         (sent @ [SummaryRequest (hit_title (hs ! i))])"
  by (subst fetch_summaries.simps) (simp add: Let_def)

lemma fetch_summaries_rejected:
  "i \<le> j \<Longrightarrow> j < min (length hs) 5 \<Longrightarrow> wiki_summary P (hit_title (hs ! j)) = Rejected \<Longrightarrow>
     fst (fetch_summaries P hs i acc sent) = None"
proof (induction P hs i acc sent rule: fetch_summaries.induct)
  case (1 P hs i acc sent)
  have i: "i < min (length hs) 5" using "1.prems" by simp
  show ?case
  proof (cases "wiki_summary P (hit_title (hs ! i))")
    case Rejected
    then show ?thesis using i by (simp add: fetch_summaries_stop)
  next
    case (Resolved s)
    then have "i \<noteq> j" using "1.prems" by auto
    then have "i + 1 \<le> j" using "1.prems" by simp
    then have "fst (fetch_summaries P hs (i + 1) (acc @ [summary_place s])
                 (sent @ [SummaryRequest (hit_title (hs ! i))])) = None"
      using "1.IH" [OF i refl Resolved] "1.prems" by simp
    then show ?thesis using i Resolved by (simp add: fetch_summaries_next)
  qed
qed

lemma fetch_summaries_resolved:
  "fst (fetch_summaries P hs i acc sent) = Some places \<Longrightarrow> i \<le> min (length hs) 5 \<Longrightarrow>
     \<exists>new. places = acc @ new \<and>
       list_all2 (\<lambda>h p. \<exists>s. wiki_summary P (hit_title h) = Resolved s \<and> p = summary_place s)
         (drop i (take 5 hs)) new"
proof (induction P hs i acc sent arbitrary: places rule: fetch_summaries.induct)
  case (1 P hs i acc sent)
  show ?case
  proof (cases "i < min (length hs) 5")
    case False
    then have "min (length hs) 5 \<le> i" by linarith
    then have "drop i (take 5 hs) = []" by simp
    moreover have "places = acc"
      using "1.prems" False by (simp add: fetch_summaries_done)
    ultimately show ?thesis by simp
  next
    case True
    show ?thesis
    proof (cases "wiki_summary P (hit_title (hs ! i))")
      case Rejected
      then show ?thesis using "1.prems" True by (simp add: fetch_summaries_stop)
    next
      case (Resolved s)
      then have "fst (fetch_summaries P hs (i + 1) (acc @ [summary_place s])
                   (sent @ [SummaryRequest (hit_title (hs ! i))])) = Some places"
        using "1.prems" True by (simp add: fetch_summaries_next)
      then obtain new where new: "places = (acc @ [summary_place s]) @ new"
        "list_all2 (\<lambda>h p. \<exists>s. wiki_summary P (hit_title h) = Resolved s \<and> p = summary_place s)
           (drop (i + 1) (take 5 hs)) new"
        using "1.IH" [OF True refl Resolved] True by auto
      have "drop i (take 5 hs) = hs ! i # drop (i + 1) (take 5 hs)"
        using Cons_nth_drop_Suc [of i "take 5 hs"] True by simp
      then show ?thesis using new Resolved by auto
    qed
  qed
qed

lemma getPopularPlaces_results:
  assumes "wiki_search P (destination @ '' tourist attractions'') = Resolved (Some searchResults)"
    and "searchResults \<noteq> []"
  shows "fst (getPopularPlaces P destination) =
           (case fst (fetch_summaries P searchResults 0 []
                   [SearchRequest (destination @ '' tourist attractions'')]) of
              None \<Rightarrow> Failure ''Failed to get popular places from Wikipedia.''
            | Some places \<Rightarrow> Success places)"
  using assms by (simp add: getPopularPlaces_def Let_def split: prod.splits option.splits)

section \<open>Properties of the number renderings\<close>

lemma digit_char_0: "digit_char 0 = CHR ''0''"
  by (simp add: digit_char_def)

lemma digits_small: "n < 10 \<Longrightarrow> digits n = [digit_char n]"
  by (simp add: digits.simps)

lemma digits_step: "10 \<le> n \<Longrightarrow> digits n = digits (n div 10) @ [digit_char (n mod 10)]"
  by (subst digits.simps) simp

lemma digits_two: "10 \<le> n \<Longrightarrow> n < 100 \<Longrightarrow> digits n = [digit_char (n div 10), digit_char (n mod 10)]"
  by (simp add: digits_step digits_small)

lemma digits_hundreds:
  "100 \<le> n \<Longrightarrow> digits n = digits (n div 100) @ [digit_char (n div 10 mod 10), digit_char (n mod 10)]"
proof -
  assume h: "100 \<le> n"
  then have "10 \<le> n" and "10 \<le> n div 10" by simp_all
  then have "digits n = (digits (n div 10 div 10) @ [digit_char (n div 10 mod 10)]) @ [digit_char (n mod 10)]"
    by (simp add: digits_step)
  moreover have "n div 10 div 10 = n div 100"
    by (simp add: div_mult2_eq [symmetric])
  ultimately show ?thesis by simp
qed

lemma digits_nonempty: "digits n \<noteq> []"
  by (subst digits.simps) simp

lemma is_digit_digit_char: "0 \<le> d \<Longrightarrow> d < 10 \<Longrightarrow> is_digit (digit_char d)"
proof -
  assume "0 \<le> d" "d < 10"
  then have "nat d < length ''0123456789''" by simp
  then have "''0123456789'' ! nat d \<in> set ''0123456789''" by (rule nth_mem)
  then show ?thesis by (simp only: is_digit_def digit_char_def)
qed

lemma digits_all_digits: "0 \<le> n \<Longrightarrow> list_all is_digit (digits n)"
proof (induction n rule: digits.induct)
  case (1 n)
  show ?case
  proof (cases "n < 10")
    case True
    with "1.prems" show ?thesis by (simp add: digits_small is_digit_digit_char)
  next
    case False
    then have "list_all is_digit (digits (n div 10))"
      using "1.IH" "1.prems" by simp
    moreover have "is_digit (digit_char (n mod 10))"
      by (rule is_digit_digit_char) simp_all
    ultimately show ?thesis using False by (simp add: digits_step)
  qed
qed

lemma toFixed_2_finite:
  assumes "as_double v = JNum x" and "\<bar>x\<bar> < 10 ^ 21"
  shows "toFixed 2 v =
           (if x < 0 then ''-'' else '''') @ digits (\<lfloor>\<bar>x\<bar> * 100 + 1 / 2\<rfloor> div 100) @ ''.'' @
           [digit_char (\<lfloor>\<bar>x\<bar> * 100 + 1 / 2\<rfloor> div 10 mod 10), digit_char (\<lfloor>\<bar>x\<bar> * 100 + 1 / 2\<rfloor> mod 10)]"
proof -
  define n where "n = \<lfloor>\<bar>x\<bar> * 100 + 1 / 2\<rfloor>"
  have n0: "0 \<le> n" unfolding n_def by simp
  define m' where "m' = (if length (digits n) \<le> 2 then replicate (3 - length (digits n)) CHR ''0'' @ digits n else digits n)"
  have unfold: "toFixed 2 v = (if x < 0 then ''-'' else '''') @ take (length m' - 2) m' @ ''.'' @ drop (length m' - 2) m'"
    using assms by (simp add: toFixed_def Let_def n_def m'_def)
  have shape: "m' = digits (n div 100) @ [digit_char (n div 10 mod 10), digit_char (n mod 10)]"
  proof -
    consider "n < 10" | "10 \<le> n" "n < 100" | "100 \<le> n" by linarith
    then show ?thesis
    proof cases
      case 1
      then show ?thesis using n0 by (simp add: m'_def digits_small numeral_3_eq_3 digit_char_0)
    next
      case 2
      then show ?thesis by (simp add: m'_def digits_two digits_small numeral_3_eq_3 digit_char_0)
    next
      case 3
      then have "length (digits n) = length (digits (n div 100)) + 2"
        by (simp add: digits_hundreds)
      moreover have "0 < length (digits (n div 100))" using digits_nonempty by simp
      ultimately have "\<not> length (digits n) \<le> 2" by linarith
      then show ?thesis using 3 by (simp add: m'_def digits_hundreds)
    qed
  qed
  show ?thesis unfolding unfold by (simp add: shape n_def)
qed

lemma two_decimal_places_shape:
  assumes "0 \<le> n"
  shows "two_decimal_places ((if neg then ''-'' else '''') @ digits (n div 100) @ ''.'' @
           [digit_char (n div 10 mod 10), digit_char (n mod 10)])"
proof -
  let ?w = "digits (n div 100)"
  have w: "?w \<noteq> []" "list_all is_digit ?w"
    using assms by (simp_all add: digits_nonempty digits_all_digits pos_imp_zdiv_nonneg_iff)
  have d: "is_digit (digit_char (n div 10 mod 10))" "is_digit (digit_char (n mod 10))"
    by (rule is_digit_digit_char; simp)+
  obtain c r where cr: "?w = c # r" using w(1) by (cases ?w) auto
  have c: "c \<noteq> CHR ''-''"
    using w(2) cr by (auto simp: is_digit_def)
  show ?thesis
    using w d c cr by (cases neg) (simp_all add: two_decimal_places_def)
qed

lemma two_decimal_km_append: "two_decimal_km (t @ '' km'') = two_decimal_places t"
  by (simp add: two_decimal_km_def)

lemma nearest_hundredth: "\<bar>of_int \<lfloor>a * 100 + 1 / 2\<rfloor> / 100 - a\<bar> \<le> 1 / (200 :: rat)"
proof -
  define x :: rat where "x = of_int \<lfloor>a * 100 + 1 / 2\<rfloor>"
  have lo: "x \<le> a * 100 + 1 / 2" unfolding x_def by (rule of_int_floor_le)
  have hi: "a * 100 + 1 / 2 < x + 1" unfolding x_def by linarith
  have "x / 100 - a \<le> 1 / 200" using lo by linarith
  moreover have "- (x / 100 - a) \<le> 1 / 200" using hi by linarith
  ultimately have "\<bar>x / 100 - a\<bar> \<le> 1 / 200" by (rule abs_leI)
  then show ?thesis unfolding x_def .
qed

lemma ordinal_first: "ordinal 0 = ''1''"
  by (simp add: ordinal_def digits_small digit_char_def)

section \<open>Rounding to binary64 is idempotent\<close>

text \<open>
  A number that an operation has produced is a double already: reading it again through
  \<open>as_double\<close> leaves it as it is.
\<close>

lemma scale_powi: "b \<noteq> 0 \<Longrightarrow> scale b e x = x * (of_int b) powi e"
  by (simp add: scale_def power_int_def divide_inverse power_inverse)

lemma ndigits_spec:
  "2 \<le> b \<Longrightarrow> 1 \<le> n \<Longrightarrow>
     1 \<le> ndigits b n \<and> b ^ nat (ndigits b n - 1) \<le> n \<and> n < b ^ nat (ndigits b n)"
proof (induction b n rule: ndigits.induct)
  case (1 b n)
  show ?case
  proof (cases "n < b")
    case True
    then have "ndigits b n = 1" by (subst ndigits.simps) simp
    with True "1.prems" show ?thesis by simp
  next
    case False
    then have nb: "\<not> (n < b \<or> b < 2)" using "1.prems" by simp
    have "0 < n div b"
      using False "1.prems" by (simp add: pos_imp_zdiv_pos_iff)
    then have q1: "1 \<le> n div b" by simp
    define k where "k = ndigits b (n div b)"
    from "1.IH" [OF nb "1.prems"(1) q1]
    have k: "1 \<le> k" "b ^ nat (k - 1) \<le> n div b" "n div b < b ^ nat k"
      by (simp_all add: k_def)
    have nd: "ndigits b n = 1 + k"
      using nb unfolding k_def by (subst ndigits.simps) simp
    have bpos: "0 < b" using "1.prems" by simp
    have s: "nat k = Suc (nat (k - 1))" using k(1) by simp
    have dm: "b * (n div b) + n mod b = n" by simp
    have rm: "0 \<le> n mod b" "n mod b < b" using bpos by simp_all
    have "b ^ nat k = b * b ^ nat (k - 1)" by (simp add: s)
    also have "\<dots> \<le> b * (n div b)" using k(2) bpos by simp
    also have "\<dots> \<le> n" using dm rm by linarith
    finally have lo: "b ^ nat k \<le> n" .
    have "n div b + 1 \<le> b ^ nat k" using k(3) by simp
    then have "b * (n div b + 1) \<le> b * b ^ nat k" using bpos by simp
    moreover have "b * (n div b + 1) = b * (n div b) + b" by (simp add: algebra_simps)
    ultimately have "n < b * b ^ nat k" using dm rm by linarith
    then have hi: "n < b ^ nat (1 + k)"
      using k(1) by (simp add: nat_add_distrib)
    show ?thesis using lo hi k(1) by (simp add: nd)
  qed
qed


lemma ilog_spec:
  assumes "0 < x"
  shows "2 powi (ilog 2 x) \<le> x \<and> x < 2 powi (ilog 2 x + 1)"
proof (cases "1 \<le> x")
  case True
  define n where "n = \<lfloor>x\<rfloor>"
  have n1: "1 \<le> n" unfolding n_def using True by simp
  have nx: "of_int n \<le> x" "x < of_int n + 1" unfolding n_def by linarith+
  define d where "d = ndigits 2 n"
  from ndigits_spec [of 2 n] n1
  have d: "1 \<le> d" "2 ^ nat (d - 1) \<le> n" "n < 2 ^ nat d"
    by (simp_all add: d_def)
  have il: "ilog 2 x = d - 1" using True by (simp add: ilog_def d_def n_def)
  have "(2::rat) powi (d - 1) = of_int (2 ^ nat (d - 1))"
    using d(1) by (simp add: power_int_def)
  also have "\<dots> \<le> of_int n" using d(2) by (simp only: of_int_le_iff)
  finally have "(2::rat) powi (d - 1) \<le> of_int n" .
  then have lo: "2 powi (d - 1) \<le> x" using nx(1) by linarith
  have "n + 1 \<le> 2 ^ nat d" using d(3) by simp
  then have "(of_int (n + 1) :: rat) \<le> of_int (2 ^ nat d)" by (simp only: of_int_le_iff)
  moreover have "(2::rat) powi d = of_int (2 ^ nat d)"
    using d(1) by (simp add: power_int_def)
  moreover have "(of_int (n + 1) :: rat) = of_int n + 1" by simp
  ultimately have hi: "x < 2 powi d" using nx(2) by linarith
  show ?thesis using lo hi by (simp add: il)
next
  case False
  then have x1: "x < 1" by simp
  define c where "c = \<lceil>1 / x\<rceil>"
  have inv: "1 < 1 / x" using assms x1 by simp
  have cx: "of_int c - 1 < 1 / x" "1 / x \<le> of_int c" unfolding c_def by linarith+
  have c2: "1 \<le> c - 1"
  proof -
    have "(1::rat) < of_int c" using inv cx(2) by linarith
    then have "1 < c" by simp
    then show ?thesis by simp
  qed
  define j where "j = ndigits 2 (c - 1)"
  from ndigits_spec [of 2 "c - 1"] c2
  have j: "1 \<le> j" "2 ^ nat (j - 1) \<le> c - 1" "c - 1 < 2 ^ nat j"
    by (simp_all add: j_def)
  have il: "ilog 2 x = - j" using False by (simp add: ilog_def j_def c_def)
  have "c \<le> 2 ^ nat j" using j(3) by simp
  then have "(of_int c :: rat) \<le> of_int (2 ^ nat j)" by (simp only: of_int_le_iff)
  moreover have "(of_int (2 ^ nat j) :: rat) = 2 ^ nat j" by simp
  ultimately have "1 / x \<le> 2 ^ nat j" using cx(2) by linarith
  then have "1 \<le> x * 2 ^ nat j" using assms by (simp add: field_simps)
  then have lo: "2 powi (- j) \<le> x"
    using j(1) by (simp add: power_int_def field_simps)
  have "(of_int (2 ^ nat (j - 1)) :: rat) \<le> of_int (c - 1)"
    using j(2) by (simp only: of_int_le_iff)
  moreover have "(of_int (2 ^ nat (j - 1)) :: rat) = 2 ^ nat (j - 1)" by simp
  moreover have "(of_int (c - 1) :: rat) = of_int c - 1" by simp
  ultimately have "2 ^ nat (j - 1) < 1 / x" using cx(1) by linarith
  then have "x * 2 ^ nat (j - 1) < 1" using assms by (simp add: field_simps)
  moreover have "(2::rat) powi (- j + 1) = 1 / 2 ^ nat (j - 1)"
    using j(1) power_int_minus_divide [of "2::rat" "j - 1"]
    by (simp add: power_int_nonneg_exp)
  ultimately have hi: "x < 2 powi (- j + 1)"
    by (simp add: pos_less_divide_eq)
  show ?thesis using lo hi by (simp add: il)
qed

lemma ilog_unique:
  assumes "2 powi e \<le> x" and "x < 2 powi (e + 1)"
  shows "ilog 2 x = e"
proof -
  have "(0::rat) < 2 powi e" by simp
  then have x: "0 < x" using assms(1) by linarith
  from ilog_spec [OF x] have i: "2 powi (ilog 2 x) \<le> x" "x < 2 powi (ilog 2 x + 1)" by simp_all
  have "(2::rat) powi e < 2 powi (ilog 2 x + 1)" using assms(1) i(2) by linarith
  then have a: "e < ilog 2 x + 1"
    by (metis not_less power_int_increasing one_le_numeral leD)
  have "(2::rat) powi (ilog 2 x) < 2 powi (e + 1)" using assms(2) i(1) by linarith
  then have b: "ilog 2 x < e + 1"
    by (metis not_less power_int_increasing one_le_numeral leD)
  show ?thesis using a b by simp
qed


lemma round_half_even_of_int: "round_half_even (of_int m) = m"
  by (simp add: round_half_even_def Let_def)

lemma round_half_even_lower: "of_int k \<le> y \<Longrightarrow> k \<le> round_half_even y"
proof -
  assume "of_int k \<le> y"
  then have "k \<le> \<lfloor>y\<rfloor>" by (simp add: le_floor_iff)
  then show ?thesis by (simp add: round_half_even_def Let_def)
qed

lemma round_half_even_upper: "y \<le> of_int k \<Longrightarrow> round_half_even y \<le> k"
proof -
  assume h: "y \<le> of_int k"
  show ?thesis
  proof (cases "y = of_int k")
    case True
    then show ?thesis by (simp add: round_half_even_of_int)
  next
    case False
    with h have "y < of_int k" by simp
    then have "\<lfloor>y\<rfloor> < k" by (simp add: floor_less_iff)
    then show ?thesis by (simp add: round_half_even_def Let_def)
  qed
qed

lemma scale_two: "scale 2 e x = x * 2 powi e"
  by (simp add: scale_powi)

lemma round_double_pos:
  assumes "0 < x"
    and "q = max (ilog 2 x - 52) (- 1074)"
    and "m = round_half_even (x * 2 powi (- q))"
  shows "round_double x =
           (if 971 < q \<or> (q = 971 \<and> m = 2 ^ 53) then JInf else JNum (of_int m * 2 powi q))"
proof -
  have a: "\<bar>x\<bar> = x" "(x = 0) = False" "(0 < x) = True" using assms(1) by simp_all
  show ?thesis
    unfolding round_double_def Let_def scale_two a assms(3) assms(2)
    by (simp only: if_True if_False)
qed

lemma round_double_minus:
  "round_double (- x) =
     (case round_double x of JNum y \<Rightarrow> JNum (- y) | JInf \<Rightarrow> JNegInf | JNegInf \<Rightarrow> JInf
      | JNaN \<Rightarrow> JNaN)"
proof -
  consider "x = 0" | "0 < x" | "x < 0" by linarith
  then show ?thesis
  proof cases
    case 1
    then show ?thesis by (simp add: round_double_def)
  next
    case 2
    then have a: "(- x = 0) = False" "(x = 0) = False" "(0 < x) = True" "(0 < - x) = False"
      "\<bar>- x\<bar> = \<bar>x\<bar>"
      by simp_all
    show ?thesis
      unfolding round_double_def Let_def a
      by (simp only: if_True if_False jsnum.case scale_two of_int_minus mult_minus_left split: if_split)
        simp
  next
    case 3
    then have a: "(- x = 0) = False" "(x = 0) = False" "(0 < x) = False" "(0 < - x) = True"
      "\<bar>- x\<bar> = \<bar>x\<bar>"
      by simp_all
    show ?thesis
      unfolding round_double_def Let_def a
      by (simp only: if_True if_False jsnum.case scale_two of_int_minus mult_minus_left split: if_split)
        simp
  qed
qed

lemma round_double_idem_pos:
  assumes x: "0 < x" and r: "round_double x = JNum y"
  shows "round_double y = JNum y"
proof -
  define e where "e = ilog 2 x"
  define q where "q = max (e - 52) (- 1074)"
  define t where "t = x * 2 powi (- q)"
  define m where "m = round_half_even t"
  have unfold: "round_double x =
      (if 971 < q \<or> (q = 971 \<and> m = 2 ^ 53) then JInf else JNum (of_int m * 2 powi q))"
    by (rule round_double_pos [OF x]) (simp_all only: q_def e_def m_def t_def)
  have novf: "\<not> (971 < q \<or> (q = 971 \<and> m = 2 ^ 53))"
    using r unfolding unfold by (auto split: if_splits)
  then have y: "y = of_int m * 2 powi q"
    using r unfolding unfold by (simp only: if_False jsnum.inject)
  have p: "(0::rat) < 2 powi k" for k by simp
  from ilog_spec [OF x] have ex: "2 powi e \<le> x" "x < 2 powi (e + 1)" by (simp_all add: e_def)
  have qe: "e - 52 \<le> q" "- 1074 \<le> q" by (simp_all add: q_def)
  have tpos: "0 < t" unfolding t_def using x p by simp
  have "t < 2 powi (e + 1) * 2 powi (- q)"
    unfolding t_def using ex(2) p [of "- q"] by (simp add: mult_strict_right_mono)
  also have "\<dots> = 2 powi (e + 1 - q)" by (simp add: power_int_add [symmetric])
  also have "\<dots> \<le> 2 powi 53" using qe(1) by (intro power_int_increasing) simp_all
  finally have t53: "t < of_int (2 ^ 53)" by simp
  have m0: "0 \<le> m"
    unfolding m_def using round_half_even_lower [of 0 t] tpos by simp
  have m53: "m \<le> 2 ^ 53"
    unfolding m_def using t53 by (intro round_half_even_upper) simp
  have m52: "2 ^ 52 \<le> m" if "- 1074 < q"
  proof -
    from that have "q = e - 52" by (simp add: q_def)
    then have "2 powi e * 2 powi (- q) = (2::rat) powi 52"
      by (simp add: power_int_add [symmetric])
    moreover have "2 powi e * 2 powi (- q) \<le> t"
      unfolding t_def using ex(1) p [of "- q"] by (simp add: mult_right_mono)
    ultimately have "of_int (2 ^ 52) \<le> t" by simp
    then show ?thesis unfolding m_def by (rule round_half_even_lower)
  qed
  show ?thesis
  proof (cases "m = 0")
    case True
    then show ?thesis by (simp add: y round_double_def)
  next
    case False
    with m0 have mpos: "0 < m" by simp
    then have ypos: "0 < y" unfolding y using p by simp
    show ?thesis
    proof (cases "m = 2 ^ 53")
      case True
      then have y53: "y = 2 powi (q + 53)"
        unfolding y by (simp add: power_int_add)
      have il: "ilog 2 y = q + 53"
        by (rule ilog_unique) (simp_all add: y53 power_int_strict_increasing)
      from novf True have q971: "q < 971" by auto
      have q2: "q + 1 = max (ilog 2 y - 52) (- 1074)"
        using qe(2) by (simp add: il)
      have "y * 2 powi (- (q + 1)) = 2 powi 52"
        unfolding y53 by (simp add: power_int_add [symmetric])
      then have m2: "2 ^ 52 = round_half_even (y * 2 powi (- (q + 1)))"
        using round_half_even_of_int [of "2 ^ 52"] by simp
      have "of_int (2 ^ 52) * 2 powi (q + 1) = (2::rat) powi (52 + (q + 1))"
        by (subst power_int_add) simp_all
      then have val: "of_int (2 ^ 52) * 2 powi (q + 1) = y"
        by (simp add: y53 add.commute)
      have "round_double y = JNum (of_int (2 ^ 52) * 2 powi (q + 1))"
        using round_double_pos [OF ypos q2 m2] q971 by simp
      then show ?thesis by (simp only: val)
    next
      case m_small: False
      with m53 have mlt: "m < 2 ^ 53" by simp
      then have "(of_int m :: rat) < of_int (2 ^ 53)" by (simp only: of_int_less_iff)
      then have "y < of_int (2 ^ 53) * 2 powi q"
        unfolding y using p [of q] by (simp only: mult_strict_right_mono)
      also have "\<dots> = 2 powi (53 + q)" by (subst power_int_add) simp_all
      finally have yhi: "y < 2 powi (q + 53)" by (simp add: add.commute)
      from ilog_spec [OF ypos] have iy: "2 powi (ilog 2 y) \<le> y" by simp
      with yhi have "(2::rat) powi (ilog 2 y) < 2 powi (q + 53)" by linarith
      then have ile: "ilog 2 y < q + 53"
        by (metis not_less power_int_increasing one_le_numeral leD)
      have q2: "q = max (ilog 2 y - 52) (- 1074)"
      proof (cases "- 1074 < q")
        case True
        have "(of_int (2 ^ 52) :: rat) \<le> of_int m"
          using m52 [OF True] by (simp only: of_int_le_iff)
        then have "of_int (2 ^ 52) * 2 powi q \<le> y"
          unfolding y using p [of q] by (simp only: mult_right_mono less_imp_le)
        moreover have "of_int (2 ^ 52) * 2 powi q = (2::rat) powi (52 + q)"
          by (subst power_int_add) simp_all
        ultimately have "2 powi (q + 52) \<le> y" by (simp add: add.commute)
        moreover have "y < 2 powi (q + 52 + 1)" using yhi by (simp add: add.commute)
        ultimately have "ilog 2 y = q + 52" by (rule ilog_unique)
        then show ?thesis using True by simp
      next
        case False
        with qe(2) have "q = - 1074" by simp
        then show ?thesis using ile by simp
      qed
      have "y * 2 powi (- q) = of_int m * (2 powi q * 2 powi (- q))"
        unfolding y by (simp only: mult.assoc)
      also have "2 powi q * 2 powi (- q) = (1::rat)"
        by (simp add: power_int_add [symmetric])
      finally have "y * 2 powi (- q) = of_int m" by simp
      then have m2: "m = round_half_even (y * 2 powi (- q))"
        by (simp add: round_half_even_of_int)
      show ?thesis
        unfolding round_double_pos [OF ypos q2 m2] using novf by (simp only: if_False y)
    qed
  qed
qed

lemma round_double_idem:
  assumes "round_double x = JNum y"
  shows "round_double y = JNum y"
proof -
  consider "x = 0" | "0 < x" | "x < 0" by linarith
  then show ?thesis
  proof cases
    case 1
    with assms show ?thesis by (simp add: round_double_def)
  next
    case 2
    then show ?thesis using assms by (rule round_double_idem_pos)
  next
    case 3
    then have "0 < - x" by simp
    moreover have "round_double (- x) = JNum (- y)"
      using assms by (simp add: round_double_minus)
    ultimately have "round_double (- y) = JNum (- y)" by (rule round_double_idem_pos)
    then show ?thesis
      using round_double_minus [of "- y"] by (simp split: jsnum.splits)
  qed
qed

lemma as_double_idem: "as_double (as_double v) = as_double v"
  by (cases v) (auto simp: as_double_def round_double_idem split: jsnum.splits)

lemma as_double_div_by: "as_double (div_by v c) = div_by v c"
  by (auto simp: div_by_def as_double_def round_double_idem split: jsnum.splits)

section \<open>The claims\<close>

subsection \<open>C1\<close>

text \<open>
  C1. The travel plan is built only when both coordinate lookups and the routing call
  succeed, and then it is built whatever the three other wrappers return: a failure of
  the popular places makes \<open>popularPlaces\<close> empty, a failure of the historical lookup makes
  \<open>historicalInfo\<close> null, a failure of the hotel search makes \<open>hotels\<close> empty.
\<close>

theorem travel_plan_only_on_route:
  "(fst (getRouteAndDetails P origin destination travelMode) = Success plan \<longrightarrow>
      (\<exists>oc dc r.
         fst (getCoordinates P origin) = Some oc \<and>
         fst (getCoordinates P destination) = Some dc \<and>
         fst (getRouteDetails P oc dc travelMode) = Success r \<and>
         (failed (fst (getPopularPlaces P destination)) \<longrightarrow> popularPlaces plan = []) \<and>
         (failed (fst (getHistoricalInfo P destination)) \<longrightarrow> historicalInfo plan = None) \<and>
         (failed (fst (getHotelRecommendations P dc)) \<longrightarrow> hotels plan = []))) \<and>
   (fst (getCoordinates P origin) = Some oc' \<and>
    fst (getCoordinates P destination) = Some dc' \<and>
    fst (getRouteDetails P oc' dc' travelMode) = Success r' \<longrightarrow>
      (\<exists>plan'. fst (getRouteAndDetails P origin destination travelMode) = Success plan'))"
proof (intro conjI impI)
  assume "fst (getRouteAndDetails P origin destination travelMode) = Success plan"
  then obtain oc dc r where c: "fst (getCoordinates P origin) = Some oc"
      "fst (getCoordinates P destination) = Some dc"
      "fst (getRouteDetails P oc dc travelMode) = Success r"
      and p: "plan = assemble P destination travelMode oc dc r"
    unfolding getRouteAndDetails_Success by blast
  have "failed (fst (getPopularPlaces P destination)) \<longrightarrow> popularPlaces plan = []"
    by (auto simp: p assemble_def or_else_def failed_def split: result.splits)
  moreover have "failed (fst (getHistoricalInfo P destination)) \<longrightarrow> historicalInfo plan = None"
    by (auto simp: p assemble_def or_else_def failed_def split: result.splits)
  moreover have "failed (fst (getHotelRecommendations P dc)) \<longrightarrow> hotels plan = []"
    by (auto simp: p assemble_def or_else_def failed_def split: result.splits)
  ultimately show "\<exists>oc dc r.
         fst (getCoordinates P origin) = Some oc \<and>
         fst (getCoordinates P destination) = Some dc \<and>
         fst (getRouteDetails P oc dc travelMode) = Success r \<and>
         (failed (fst (getPopularPlaces P destination)) \<longrightarrow> popularPlaces plan = []) \<and>
         (failed (fst (getHistoricalInfo P destination)) \<longrightarrow> historicalInfo plan = None) \<and>
         (failed (fst (getHotelRecommendations P dc)) \<longrightarrow> hotels plan = [])"
    using c by blast
next
  assume "fst (getCoordinates P origin) = Some oc' \<and>
    fst (getCoordinates P destination) = Some dc' \<and>
    fst (getRouteDetails P oc' dc' travelMode) = Success r'"
  then show "\<exists>plan'. fst (getRouteAndDetails P origin destination travelMode) = Success plan'"
    unfolding getRouteAndDetails_Success by blast
qed

theorem travel_plan_only_on_route_witness:
  "fst (getCoordinates no_aux ''Pune'') = Some pune \<and>
   fst (getCoordinates no_aux ''Goa'') = Some goa \<and>
   \<not> failed (fst (getRouteDetails no_aux pune goa ''driving'')) \<and>
   failed (fst (getPopularPlaces no_aux ''Goa'')) \<and>
   failed (fst (getHistoricalInfo no_aux ''Goa'')) \<and>
   failed (fst (getHotelRecommendations no_aux goa)) \<and>
   map_result (\<lambda>plan. (popularPlaces plan, historicalInfo plan, hotels plan))
     (fst (getRouteAndDetails no_aux ''Pune'' ''Goa'' ''driving'')) = Success ([], None, [])"
proof -
  have o: "fst (getCoordinates no_aux ''Pune'') = Some pune" by code_simp
  have d: "fst (getCoordinates no_aux ''Goa'') = Some goa" by code_simp
  have "\<not> failed (fst (getRouteDetails no_aux pune goa ''driving''))" by code_simp
  then obtain r where r: "fst (getRouteDetails no_aux pune goa ''driving'') = Success r"
    by (cases "fst (getRouteDetails no_aux pune goa ''driving'')") (simp_all add: failed_def)
  have f1: "failed (fst (getPopularPlaces no_aux ''Goa''))" by code_simp
  have f2: "failed (fst (getHistoricalInfo no_aux ''Goa''))" by code_simp
  have f3: "failed (fst (getHotelRecommendations no_aux goa))" by code_simp
  note t = travel_plan_only_on_route [of no_aux "''Pune''" "''Goa''" "''driving''" _ pune goa r]
  from t o d r obtain plan
    where plan: "fst (getRouteAndDetails no_aux ''Pune'' ''Goa'' ''driving'') = Success plan"
    by blast
  from travel_plan_only_on_route [of no_aux "''Pune''" "''Goa''" "''driving''" plan pune goa r]
    plan o d f1 f2 f3
  have "popularPlaces plan = [] \<and> historicalInfo plan = None \<and> hotels plan = []"
    by auto
  with plan o d r f1 f2 f3 show ?thesis by (simp add: failed_def)
qed

subsection \<open>C2\<close>

text \<open>
  C2. When both coordinate lookups succeed and the directions provider answers with an
  empty or missing list of routes, the aggregate is the failure with the message
  "No routes found. Please check the origin and destination.", in both handlers.
\<close>

theorem no_routes_message:
  assumes "fst (getCoordinates P origin) = Some oc"
    and "fst (getCoordinates P destination) = Some dc"
    and "directions_api P travelMode oc dc = Resolved None \<or>
         directions_api P travelMode oc dc = Resolved (Some [])"
  shows "fst (getRouteAndDetails P origin destination travelMode) =
           Failure ''No routes found. Please check the origin and destination.'' \<and>
         fst (getRouteAndDetails_basic P origin destination travelMode) =
           Failure ''No routes found. Please check the origin and destination.''"
  using getRouteDetails_no_routes [OF assms(3)]
  by (simp add: getRouteAndDetails_coords [OF assms(1,2)]
      getRouteAndDetails_basic_no_route [OF assms(1,2)])

theorem no_routes_message_witness:
  "fst (getCoordinates no_routes ''Pune'') = Some pune \<and>
   fst (getCoordinates no_routes ''Goa'') = Some goa \<and>
   directions_api no_routes ''driving'' pune goa = Resolved (Some []) \<and>
   fst (getRouteAndDetails no_routes ''Pune'' ''Goa'' ''driving'') =
     Failure ''No routes found. Please check the origin and destination.'' \<and>
   fst (getRouteAndDetails_basic no_routes ''Pune'' ''Goa'' ''driving'') =
     Failure ''No routes found. Please check the origin and destination.''"
proof -
  have o: "fst (getCoordinates no_routes ''Pune'') = Some pune" by code_simp
  have d: "fst (getCoordinates no_routes ''Goa'') = Some goa" by code_simp
  have e: "directions_api no_routes ''driving'' pune goa = Resolved (Some [])"
    by (simp add: no_routes_def)
  show ?thesis using o d e no_routes_message [OF o d disjI2 [OF e]] by simp
qed

subsection \<open>C3\<close>

text \<open>
  C3. When the geocoder has no coordinates for the origin or for the destination, the
  aggregate is the failure with the message "Failed to get coordinates for origin or
  destination." and the only requests sent are the two geocoding requests: the
  directions provider is not called. (When both lookups succeed it is called.)
\<close>

theorem no_coordinates_no_routing:
  "(fst (getCoordinates P origin) = None \<or> fst (getCoordinates P destination) = None \<longrightarrow>
      fst (getRouteAndDetails P origin destination travelMode) =
        Failure ''Failed to get coordinates for origin or destination.'' \<and>
      snd (getRouteAndDetails P origin destination travelMode) =
        [GeocodeRequest origin, GeocodeRequest destination] \<and>
      (\<forall>m a b. DirectionsRequest m a b
         \<notin> set (snd (getRouteAndDetails P origin destination travelMode))) \<and>
      fst (getRouteAndDetails_basic P origin destination travelMode) =
        Failure ''Failed to get coordinates for origin or destination.'' \<and>
      (\<forall>m a b. DirectionsRequest m a b
         \<notin> set (snd (getRouteAndDetails_basic P origin destination travelMode)))) \<and>
   (fst (getCoordinates P origin) = Some oc \<and> fst (getCoordinates P destination) = Some dc \<longrightarrow>
      DirectionsRequest travelMode oc dc
        \<in> set (snd (getRouteAndDetails P origin destination travelMode)))"
  by (auto simp: getRouteAndDetails_no_coords getRouteAndDetails_basic_no_coords
      getRouteAndDetails_coords)

theorem no_coordinates_no_routing_witness:
  "fst (getCoordinates sample ''Atlantis'') = None \<and>
   getRouteAndDetails sample ''Atlantis'' ''Goa'' ''driving'' =
     (Failure ''Failed to get coordinates for origin or destination.'',
      [GeocodeRequest ''Atlantis'', GeocodeRequest ''Goa'']) \<and>
   fst (getCoordinates sample ''Pune'') = Some pune \<and>
   fst (getCoordinates sample ''Goa'') = Some goa \<and>
   DirectionsRequest ''driving'' pune goa
     \<in> set (snd (getRouteAndDetails sample ''Pune'' ''Goa'' ''driving''))"
proof -
  have n: "fst (getCoordinates sample ''Atlantis'') = None" by code_simp
  have o: "fst (getCoordinates sample ''Pune'') = Some pune" by code_simp
  have d: "fst (getCoordinates sample ''Goa'') = Some goa" by code_simp
  from no_coordinates_no_routing [of sample "''Atlantis''" "''Goa''" "''driving''"] n
  have "getRouteAndDetails sample ''Atlantis'' ''Goa'' ''driving'' =
     (Failure ''Failed to get coordinates for origin or destination.'',
      [GeocodeRequest ''Atlantis'', GeocodeRequest ''Goa''])"
    by (simp add: prod_eq_iff)
  moreover from no_coordinates_no_routing [of sample "''Pune''" "''Goa''" "''driving''" pune goa] o d
  have "DirectionsRequest ''driving'' pune goa
     \<in> set (snd (getRouteAndDetails sample ''Pune'' ''Goa'' ''driving''))"
    by blast
  ultimately show ?thesis using n o d by simp
qed

subsection \<open>C4\<close>

text \<open>
  C4. Take two sets of providers with the same geocoder and the same directions
  provider. If the first yields a travel plan, so does the second, with the same
  duration, distance, directions, places along the route and map links; and each of
  \<open>popularPlaces\<close>, \<open>historicalInfo\<close> and \<open>hotels\<close> is the same in both plans as soon as
  its own wrapper returns the same result in both.
\<close>

theorem auxiliary_results_frame:
  assumes "geocoding P' = geocoding P"
    and "directions_api P' = directions_api P"
    and "fst (getRouteAndDetails P origin destination travelMode) = Success plan"
  shows "\<exists>plan' dc.
           fst (getRouteAndDetails P' origin destination travelMode) = Success plan' \<and>
           fst (getCoordinates P destination) = Some dc \<and>
           plan_duration plan' = plan_duration plan \<and>
           plan_distance plan' = plan_distance plan \<and>
           plan_directions plan' = plan_directions plan \<and>
           placesAlongRoute plan' = placesAlongRoute plan \<and>
           mapboxUrl plan' = mapboxUrl plan \<and>
           googleMapsUrl plan' = googleMapsUrl plan \<and>
           (fst (getPopularPlaces P' destination) = fst (getPopularPlaces P destination) \<longrightarrow>
              popularPlaces plan' = popularPlaces plan) \<and>
           (fst (getHistoricalInfo P' destination) = fst (getHistoricalInfo P destination) \<longrightarrow>
              historicalInfo plan' = historicalInfo plan) \<and>
           (fst (getHotelRecommendations P' dc) = fst (getHotelRecommendations P dc) \<longrightarrow>
              hotels plan' = hotels plan)"
proof -
  from assms(3) obtain oc dc r where c: "fst (getCoordinates P origin) = Some oc"
      "fst (getCoordinates P destination) = Some dc"
      "fst (getRouteDetails P oc dc travelMode) = Success r"
      and p: "plan = assemble P destination travelMode oc dc r"
    unfolding getRouteAndDetails_Success by blast
  have g: "getCoordinates P' l = getCoordinates P l" for l
    by (simp add: getCoordinates_def assms(1))
  have d: "getRouteDetails P' a b m = getRouteDetails P a b m" for a b m
    by (simp add: getRouteDetails_def assms(2))
  have "fst (getRouteAndDetails P' origin destination travelMode) =
          Success (assemble P' destination travelMode oc dc r)"
    unfolding getRouteAndDetails_Success using c by (simp add: g d)
  then show ?thesis
    using c(2) by (auto simp: p assemble_def)
qed

theorem auxiliary_results_frame_witness:
  "geocoding no_hotels = geocoding sample \<and>
   directions_api no_hotels = directions_api sample \<and>
   \<not> failed (fst (getRouteAndDetails sample ''Pune'' ''Goa'' ''driving'')) \<and>
   fst (getCoordinates sample ''Goa'') = Some goa \<and>
   fst (getPopularPlaces no_hotels ''Goa'') = fst (getPopularPlaces sample ''Goa'') \<and>
   fst (getHistoricalInfo no_hotels ''Goa'') = fst (getHistoricalInfo sample ''Goa'') \<and>
   fst (getHotelRecommendations no_hotels goa) \<noteq> fst (getHotelRecommendations sample goa) \<and>
   (\<exists>plan plan'.
      fst (getRouteAndDetails sample ''Pune'' ''Goa'' ''driving'') = Success plan \<and>
      fst (getRouteAndDetails no_hotels ''Pune'' ''Goa'' ''driving'') = Success plan' \<and>
      plan_duration plan' = plan_duration plan \<and>
      plan_distance plan' = plan_distance plan \<and>
      plan_directions plan' = plan_directions plan \<and>
      placesAlongRoute plan' = placesAlongRoute plan \<and>
      popularPlaces plan' = popularPlaces plan \<and>
      historicalInfo plan' = historicalInfo plan)"
proof -
  have g: "geocoding no_hotels = geocoding sample" by (simp add: no_hotels_def)
  have r: "directions_api no_hotels = directions_api sample" by (simp add: no_hotels_def)
  have s: "\<not> failed (fst (getRouteAndDetails sample ''Pune'' ''Goa'' ''driving''))"
    by code_simp
  then obtain plan
    where plan: "fst (getRouteAndDetails sample ''Pune'' ''Goa'' ''driving'') = Success plan"
    by (cases "fst (getRouteAndDetails sample ''Pune'' ''Goa'' ''driving'')")
      (simp_all add: failed_def)
  have d: "fst (getCoordinates sample ''Goa'') = Some goa" by code_simp
  have p: "fst (getPopularPlaces no_hotels ''Goa'') = fst (getPopularPlaces sample ''Goa'')"
    by code_simp
  have h: "fst (getHistoricalInfo no_hotels ''Goa'') = fst (getHistoricalInfo sample ''Goa'')"
    by code_simp
  have l: "fst (getHotelRecommendations no_hotels goa) \<noteq> fst (getHotelRecommendations sample goa)"
    by code_simp
  from auxiliary_results_frame [OF g r plan] p h d
  have "\<exists>plan'.
      fst (getRouteAndDetails no_hotels ''Pune'' ''Goa'' ''driving'') = Success plan' \<and>
      plan_duration plan' = plan_duration plan \<and>
      plan_distance plan' = plan_distance plan \<and>
      plan_directions plan' = plan_directions plan \<and>
      placesAlongRoute plan' = placesAlongRoute plan \<and>
      popularPlaces plan' = popularPlaces plan \<and>
      historicalInfo plan' = historicalInfo plan"
    by auto
  with g r s d p h l plan show ?thesis by blast
qed

subsection \<open>C5\<close>

text \<open>
  C5, as the spec states it, fails for a route of \<open>10 ^ 24\<close> metres: the quotient is
  \<open>10 ^ 21\<close>, which \<^verbatim>\<open>toFixed\<close> prints in exponent notation, without decimal places.
\<close>

theorem huge_distance_no_decimals:
  "map_result rd_distance (fst (getRouteDetails far pune goa ''driving'')) =
     Success ''1e+21 km'' \<and>
   \<not> two_decimal_km ''1e+21 km''"
  by code_simp

text \<open>
  C5, amended. For a route whose distance divided by 1000 is a finite number \<open>km\<close> of
  magnitude below \<open>10 ^ 21\<close>, the formatted distance is \<^verbatim>\<open>toFixed(2)\<close> of the quotient
  followed by " km": the sign, the digits of the hundredth nearest to \<open>km\<close> (the larger
  in magnitude of two) with a point before the last two, so exactly two decimal places.
  The formatted duration is the rendering of the floor of the duration divided by 60,
  followed by " minutes". 1500 metres give "1.50 km" and 125 seconds give "2 minutes".
\<close>

theorem distance_and_duration_text:
  assumes "directions_api P travelMode origin destination = Resolved (Some (bestRoute # others))"
    and "route_legs bestRoute = steps # legs"
    and "div_by (route_distance bestRoute) 1000 = JNum km"
    and "\<bar>km\<bar> < 10 ^ 21"
  shows "\<exists>r. fst (getRouteDetails P origin destination travelMode) = Success r \<and>
           rd_distance r = toFixed 2 (div_by (route_distance bestRoute) 1000) @ '' km'' \<and>
           rd_distance r =
             (if km < 0 then ''-'' else '''') @ digits (\<lfloor>\<bar>km\<bar> * 100 + 1 / 2\<rfloor> div 100) @ ''.'' @
             [digit_char (\<lfloor>\<bar>km\<bar> * 100 + 1 / 2\<rfloor> div 10 mod 10),
              digit_char (\<lfloor>\<bar>km\<bar> * 100 + 1 / 2\<rfloor> mod 10)] @ '' km'' \<and>
           \<bar>of_int \<lfloor>\<bar>km\<bar> * 100 + 1 / 2\<rfloor> / 100 - \<bar>km\<bar>\<bar> \<le> 1 / 200 \<and>
           two_decimal_km (rd_distance r) \<and>
           rd_duration r =
             toString (Math_floor (div_by (route_duration bestRoute) 60)) @ '' minutes'' \<and>
           toFixed 2 (div_by (JNum 1500) 1000) @ '' km'' = ''1.50 km'' \<and>
           toString (Math_floor (div_by (JNum 125) 60)) @ '' minutes'' = ''2 minutes''"
proof -
  define n where "n = \<lfloor>\<bar>km\<bar> * 100 + 1 / 2\<rfloor>"
  define r where "r =
    \<lparr>rd_duration = toString (Math_floor (div_by (route_duration bestRoute) 60)) @ '' minutes'',
     rd_distance = toFixed 2 (div_by (route_distance bestRoute) 1000) @ '' km'',
     rd_directions = js_join '' -> '' (map step_instruction steps),
     rd_places = map step_place (filter named steps)\<rparr>"
  have run: "fst (getRouteDetails P origin destination travelMode) = Success r"
    unfolding r_def by (rule getRouteDetails_first_leg [OF assms(1,2)])
  have dist: "rd_distance r = toFixed 2 (div_by (route_distance bestRoute) 1000) @ '' km''"
    and dur: "rd_duration r =
      toString (Math_floor (div_by (route_duration bestRoute) 60)) @ '' minutes''"
    by (simp_all add: r_def)
  have n0: "0 \<le> n" unfolding n_def by simp
  have fixed: "toFixed 2 (div_by (route_distance bestRoute) 1000) =
      (if km < 0 then ''-'' else '''') @ digits (n div 100) @ ''.'' @
      [digit_char (n div 10 mod 10), digit_char (n mod 10)]"
    unfolding n_def using assms(3) as_double_div_by [of "route_distance bestRoute" 1000]
    by (intro toFixed_2_finite [OF _ assms(4)]) simp
  have shape: "two_decimal_places (toFixed 2 (div_by (route_distance bestRoute) 1000))"
    unfolding fixed using two_decimal_places_shape [OF n0, of "km < 0"] by simp
  have digits: "rd_distance r =
      (if km < 0 then ''-'' else '''') @ digits (n div 100) @ ''.'' @
      [digit_char (n div 10 mod 10), digit_char (n mod 10)] @ '' km''"
    unfolding dist fixed by simp
  have km: "two_decimal_km (rd_distance r)"
    unfolding dist two_decimal_km_append by (rule shape)
  have near: "\<bar>of_int n / 100 - \<bar>km\<bar>\<bar> \<le> 1 / 200"
    unfolding n_def by (rule nearest_hundredth)
  have e1: "toFixed 2 (div_by (JNum 1500) 1000) @ '' km'' = ''1.50 km''" by code_simp
  have e2: "toString (Math_floor (div_by (JNum 125) 60)) @ '' minutes'' = ''2 minutes''"
    by code_simp
  show ?thesis
    using run dist digits near km dur e1 e2 unfolding n_def by blast
qed

theorem distance_and_duration_text_witness:
  "directions_api sample ''driving'' pune goa = Resolved (Some (sample_route # [])) \<and>
   route_legs sample_route = sample_steps # [] \<and>
   div_by (route_distance sample_route) 1000 = JNum (3 / 2) \<and>
   \<bar>3 / 2 :: rat\<bar> < 10 ^ 21 \<and>
   map_result (\<lambda>r. (rd_distance r, rd_duration r))
     (fst (getRouteDetails sample pune goa ''driving'')) = Success (''1.50 km'', ''2 minutes'') \<and>
   two_decimal_km ''1.50 km''"
proof -
  have a: "directions_api sample ''driving'' pune goa = Resolved (Some (sample_route # []))"
    by (simp add: sample_def)
  have b: "route_legs sample_route = sample_steps # []"
    by (simp add: sample_route_def)
  have c: "div_by (route_distance sample_route) 1000 = JNum (3 / 2)"
    by code_simp
  have d: "\<bar>3 / 2 :: rat\<bar> < 10 ^ 21" by simp
  have e: "route_distance sample_route = JNum 1500" "route_duration sample_route = JNum 125"
    by (simp_all add: sample_route_def)
  from distance_and_duration_text [OF a b c d] obtain r
    where "fst (getRouteDetails sample pune goa ''driving'') = Success r"
      and "rd_distance r = ''1.50 km''" and "rd_duration r = ''2 minutes''"
      and "two_decimal_km (rd_distance r)"
    unfolding e by metis
  with a b c d show ?thesis by simp
qed

subsection \<open>C6\<close>

text \<open>
  C6. For a route whose first leg has the steps \<open>steps\<close>, the places of the route result
  are the steps that have a non-empty name, in the order of the steps, each with its own
  name, instruction, distance and duration; the directions are the instructions of all
  the steps, named or not, in the order of the steps, joined by " -> ".
\<close>

theorem places_are_named_steps:
  assumes "directions_api P travelMode origin destination = Resolved (Some (bestRoute # others))"
    and "route_legs bestRoute = steps # legs"
  shows "\<exists>r. fst (getRouteDetails P origin destination travelMode) = Success r \<and>
           rd_places r = map step_place (filter named steps) \<and>
           map (\<lambda>p. Some (rs_name p)) (rd_places r) =
             filter (\<lambda>n. n \<noteq> None \<and> n \<noteq> Some []) (map step_name steps) \<and>
           map rs_instruction (rd_places r) = map step_instruction (filter named steps) \<and>
           map rs_distance (rd_places r) = map step_distance (filter named steps) \<and>
           map rs_duration (rd_places r) = map step_duration (filter named steps) \<and>
           rd_directions r = js_join '' -> '' (map step_instruction steps)"
proof -
  define r where "r =
    \<lparr>rd_duration = toString (Math_floor (div_by (route_duration bestRoute) 60)) @ '' minutes'',
     rd_distance = toFixed 2 (div_by (route_distance bestRoute) 1000) @ '' km'',
     rd_directions = js_join '' -> '' (map step_instruction steps),
     rd_places = map step_place (filter named steps)\<rparr>"
  have run: "fst (getRouteDetails P origin destination travelMode) = Success r"
    unfolding r_def by (rule getRouteDetails_first_leg [OF assms])
  have places: "rd_places r = map step_place (filter named steps)"
    and directions: "rd_directions r = js_join '' -> '' (map step_instruction steps)"
    by (simp_all add: r_def)
  have names: "map (\<lambda>p. Some (rs_name p)) (rd_places r) =
      filter (\<lambda>n. n \<noteq> None \<and> n \<noteq> Some []) (map step_name steps)"
    unfolding places by (rule named_names)
  have fields: "map rs_instruction (rd_places r) = map step_instruction (filter named steps)"
    "map rs_distance (rd_places r) = map step_distance (filter named steps)"
    "map rs_duration (rd_places r) = map step_duration (filter named steps)"
    unfolding places by (simp_all add: step_place_def)
  show ?thesis using run places directions names fields by blast
qed

theorem places_are_named_steps_witness:
  "directions_api sample ''driving'' pune goa = Resolved (Some (sample_route # [])) \<and>
   route_legs sample_route = sample_steps # [] \<and>
   map_result (\<lambda>r. (map rs_name (rd_places r), rd_directions r))
     (fst (getRouteDetails sample pune goa ''driving'')) =
     Success ([''MG Road'', ''NH 48'', ''NH 66'', ''Mandovi Bridge'', ''Beach Road'',
               ''Church Street'', ''Market Lane''],
              ''Head north -> Turn left -> Merge right -> Keep straight -> Take the exit -> Cross the river -> Turn right -> Turn left again -> Arrive'')"
proof -
  have a: "directions_api sample ''driving'' pune goa = Resolved (Some (sample_route # []))"
    by (simp add: sample_def)
  have b: "route_legs sample_route = sample_steps # []"
    by (simp add: sample_route_def)
  have n: "map rs_name (map step_place (filter named sample_steps)) =
      [''MG Road'', ''NH 48'', ''NH 66'', ''Mandovi Bridge'', ''Beach Road'',
       ''Church Street'', ''Market Lane'']"
    by code_simp
  have j: "js_join '' -> '' (map step_instruction sample_steps) =
      ''Head north -> Turn left -> Merge right -> Keep straight -> Take the exit -> Cross the river -> Turn right -> Turn left again -> Arrive''"
    by code_simp
  from places_are_named_steps [OF a b] obtain r
    where "fst (getRouteDetails sample pune goa ''driving'') = Success r"
      and "rd_places r = map step_place (filter named sample_steps)"
      and "rd_directions r = js_join '' -> '' (map step_instruction sample_steps)"
    by blast
  with a b n j show ?thesis by simp
qed

subsection \<open>C7\<close>

text \<open>
  C7. The items rendered under "Notable places along the route" are the first five
  places along the route, or all of them when there are fewer: never more than five. The
  item at position \<open>i\<close> (from 0) starts with the number \<open>i + 1\<close>, so the first one is
  numbered 1, followed by the name of the \<open>i\<close>-th place. Both handlers put exactly these
  items, joined by line breaks, between that heading and the next one.
\<close>

theorem notable_places_capped:
  "length (placesAlongRouteItems places) = min 5 (length places) \<and>
   length (placesAlongRouteItems places) \<le> 5 \<and>
   (\<forall>i < length (placesAlongRouteItems places).
      placesAlongRouteItems places ! i =
        digits (int i + 1) @ ''. '' @ rs_name (places ! i) @ '': '' @
        rs_instruction (places ! i) @ '' ('' @ toFixed 2 (rs_distance (places ! i)) @ '' m, '' @
        toString (Math_floor (div_by (rs_duration (places ! i)) 60)) @ '' min)'') \<and>
   digits (int 0 + 1) = ''1'' \<and>
   (fst (getRouteAndDetails P origin destination (mode_or_default travelMode)) = Success plan \<longrightarrow>
      (\<exists>before after. fst (execute P origin destination travelMode) =
         before @ ''Notable places along the route:'' @ nl @
         js_join nl (placesAlongRouteItems (placesAlongRoute plan)) @ nl @ nl @
         ''Popular places to visit at '' @ after)) \<and>
   (fst (getRouteAndDetails_basic P origin destination (mode_or_default travelMode)) =
      Success basic \<longrightarrow>
      (\<exists>before after. fst (execute_basic P origin destination travelMode) =
         before @ ''Notable places along the route:'' @ nl @
         js_join nl (placesAlongRouteItems (bp_placesAlongRoute basic)) @ nl @ nl @
         ''Popular places to visit at '' @ after))"
proof (intro conjI impI allI)
  show "length (placesAlongRouteItems places) = min 5 (length places)"
    by (simp add: placesAlongRouteItems_def length_map_indexed min.commute)
  then show "length (placesAlongRouteItems places) \<le> 5" by simp
  show "digits (int 0 + 1) = ''1''"
    using ordinal_first by (simp add: ordinal_def)
next
  fix i
  assume "i < length (placesAlongRouteItems places)"
  then have i: "i < length (take 5 places)"
    by (simp add: placesAlongRouteItems_def length_map_indexed)
  then have "take 5 places ! i = places ! i" by simp
  then show "placesAlongRouteItems places ! i =
        digits (int i + 1) @ ''. '' @ rs_name (places ! i) @ '': '' @
        rs_instruction (places ! i) @ '' ('' @ toFixed 2 (rs_distance (places ! i)) @ '' m, '' @
        toString (Math_floor (div_by (rs_duration (places ! i)) 60)) @ '' min)''"
    using nth_map_indexed [OF i, of route_step_line 0]
    by (simp add: placesAlongRouteItems_def route_step_line_def ordinal_def)
next
  assume "fst (getRouteAndDetails P origin destination (mode_or_default travelMode)) = Success plan"
  then have "fst (execute P origin destination travelMode) = render origin destination plan"
    by (rule execute_Success)
  then have "fst (execute P origin destination travelMode) =
      (''Travel Plan: '' @ origin @ '' to '' @ destination @ nl @ nl @
       ''Route Information:'' @ nl @ ''- Duration: '' @ plan_duration plan @ nl @
       ''- Distance: '' @ plan_distance plan @ nl @ nl @
       ''Detailed directions: '' @ plan_directions plan @ nl @ nl @
       ''Historical Information about '' @ destination @ '':'' @ nl @
       historical_summary (historicalInfo plan) @ nl @
       historical_source (historicalInfo plan) @ nl @ nl) @
      ''Notable places along the route:'' @ nl @
      js_join nl (placesAlongRouteItems (placesAlongRoute plan)) @ nl @ nl @
      ''Popular places to visit at '' @
      (destination @ '':'' @ nl @ popularPlacesDescription (popularPlaces plan) @ nl @ nl @
       ''Recommended Hotels:'' @ nl @ hotelRecommendations (hotels plan) @ nl @ nl @
       ''Interactive Maps:'' @ nl @
       ''- [Google Maps Directions]('' @ googleMapsUrl plan @ '')'' @ nl @ nl @
       ''Note: Click the links to view interactive maps and more details about places and hotels.'')"
    by (simp add: render_def placesAlongRouteDescription_def)
  then show "\<exists>before after. fst (execute P origin destination travelMode) =
         before @ ''Notable places along the route:'' @ nl @
         js_join nl (placesAlongRouteItems (placesAlongRoute plan)) @ nl @ nl @
         ''Popular places to visit at '' @ after"
    by blast
next
  assume "fst (getRouteAndDetails_basic P origin destination (mode_or_default travelMode)) =
      Success basic"
  then have "fst (execute_basic P origin destination travelMode) =
      render_basic origin destination basic"
    by (rule execute_basic_Success)
  then have "fst (execute_basic P origin destination travelMode) =
      (''The best route from '' @ origin @ '' to '' @ destination @
       '' will take approximately '' @ bp_duration basic @ '', covering a distance of '' @
       bp_distance basic @ ''.'' @ nl @ nl @
       ''Detailed directions: '' @ bp_directions basic @ nl @ nl) @
      ''Notable places along the route:'' @ nl @
      js_join nl (placesAlongRouteItems (bp_placesAlongRoute basic)) @ nl @ nl @
      ''Popular places to visit at '' @
      (destination @ '':'' @ nl @ popularPlacesDescription (bp_popularPlaces basic) @ nl @ nl @
       ''You can view the interactive route maps here:'' @ nl @ nl @
       ''- [Google Maps Directions]('' @ bp_googleMapsUrl basic @ '')'' @ nl @ nl @
       ''Note: These links will open the respective directions interface, allowing you to view the route and directions interactively.'')"
    by (simp add: render_basic_def placesAlongRouteDescription_def)
  then show "\<exists>before after. fst (execute_basic P origin destination travelMode) =
         before @ ''Notable places along the route:'' @ nl @
         js_join nl (placesAlongRouteItems (bp_placesAlongRoute basic)) @ nl @ nl @
         ''Popular places to visit at '' @ after"
    by blast
qed

theorem notable_places_capped_witness:
  "map_result (\<lambda>plan. length (placesAlongRoute plan))
     (fst (getRouteAndDetails sample ''Pune'' ''Goa'' (mode_or_default None))) = Success 7 \<and>
   map_result (\<lambda>plan. placesAlongRouteItems (placesAlongRoute plan))
     (fst (getRouteAndDetails sample ''Pune'' ''Goa'' (mode_or_default None))) =
     Success [''1. MG Road: Head north (1200.50 m, 1 min)'',
              ''2. NH 48: Merge right (350000.00 m, 240 min)'',
              ''3. NH 66: Take the exit (90000.00 m, 90 min)'',
              ''4. Mandovi Bridge: Cross the river (700.00 m, 1 min)'',
              ''5. Beach Road: Turn right (1500.00 m, 2 min)''] \<and>
   (\<exists>before after. fst (execute sample ''Pune'' ''Goa'' None) =
      before @ ''Notable places along the route:'' @ nl @
      js_join nl [''1. MG Road: Head north (1200.50 m, 1 min)'',
                  ''2. NH 48: Merge right (350000.00 m, 240 min)'',
                  ''3. NH 66: Take the exit (90000.00 m, 90 min)'',
                  ''4. Mandovi Bridge: Cross the river (700.00 m, 1 min)'',
                  ''5. Beach Road: Turn right (1500.00 m, 2 min)''] @ nl @ nl @
      ''Popular places to visit at '' @ after)"
proof -
  have n: "map_result (\<lambda>plan. length (placesAlongRoute plan))
     (fst (getRouteAndDetails sample ''Pune'' ''Goa'' (mode_or_default None))) = Success 7"
    by code_simp
  have l: "map_result (\<lambda>plan. placesAlongRouteItems (placesAlongRoute plan))
     (fst (getRouteAndDetails sample ''Pune'' ''Goa'' (mode_or_default None))) =
     Success [''1. MG Road: Head north (1200.50 m, 1 min)'',
              ''2. NH 48: Merge right (350000.00 m, 240 min)'',
              ''3. NH 66: Take the exit (90000.00 m, 90 min)'',
              ''4. Mandovi Bridge: Cross the river (700.00 m, 1 min)'',
              ''5. Beach Road: Turn right (1500.00 m, 2 min)'']"
    by code_simp
  from n obtain plan
    where plan: "fst (getRouteAndDetails sample ''Pune'' ''Goa'' (mode_or_default None)) =
      Success plan"
    by (cases "fst (getRouteAndDetails sample ''Pune'' ''Goa'' (mode_or_default None))") simp_all
  from l plan have items: "placesAlongRouteItems (placesAlongRoute plan) =
      [''1. MG Road: Head north (1200.50 m, 1 min)'',
       ''2. NH 48: Merge right (350000.00 m, 240 min)'',
       ''3. NH 66: Take the exit (90000.00 m, 90 min)'',
       ''4. Mandovi Bridge: Cross the river (700.00 m, 1 min)'',
       ''5. Beach Road: Turn right (1500.00 m, 2 min)'']"
    by simp
  from notable_places_capped [of _ sample "''Pune''" "''Goa''" None plan] plan
  have "\<exists>before after. fst (execute sample ''Pune'' ''Goa'' None) =
         before @ ''Notable places along the route:'' @ nl @
         js_join nl (placesAlongRouteItems (placesAlongRoute plan)) @ nl @ nl @
         ''Popular places to visit at '' @ after"
    by blast
  then show ?thesis using n l unfolding items by blast
qed

subsection \<open>C8\<close>

text \<open>
  C8, as the spec states it, fails for a response with six results: the wrapper returns
  six hotels.
\<close>

theorem six_results_six_hotels:
  "places_search crowded (hotel_query goa) =
     Resolved (sample_venues @ sample_venues @ sample_venues) \<and>
   map_result length (fst (getHotelRecommendations crowded goa)) = Success 6 \<and>
   \<not> (6 :: nat) \<le> 5"
  by code_simp

text \<open>
  C8, amended. The hotel search is asked for the query "hotel" near the coordinates,
  sorted by rating, with limit 5. The wrapper returns one hotel for each result of the
  response, in the order of the response, so at most five when the response keeps to
  the limit of the request. A result without a rating gets the rating "N/A", rendered
  as "N/A"; a result without a category gets the category "Hotel".
\<close>

theorem hotels_follow_response:
  assumes "places_search P (hotel_query coordinates) = Resolved results"
  shows "fst (getHotelRecommendations P coordinates) = Success (map to_hotel results) \<and>
         snd (getHotelRecommendations P coordinates) =
           [VenueRequest \<lparr>vq_query = ''hotel'', vq_ll = coordinates, vq_sort = ''RATING'',
              vq_limit = 5\<rparr>] \<and>
         length (map to_hotel results) = length results \<and>
         (length results \<le> vq_limit (hotel_query coordinates) \<longrightarrow>
            length (map to_hotel results) \<le> 5) \<and>
         (\<forall>i < length results.
            (venue_rating (results ! i) = None \<longrightarrow>
               hotel_rating (map to_hotel results ! i) = RatingText ''N/A'' \<and>
               rating_text (hotel_rating (map to_hotel results ! i)) = ''N/A'') \<and>
            (venue_categories (results ! i) = [] \<longrightarrow>
               hotel_category (map to_hotel results ! i) = ''Hotel'') \<and>
            hotel_name (map to_hotel results ! i) = venue_name (results ! i))"
  using assms
  by (auto simp: getHotelRecommendations_def hotel_query_def to_hotel_def rating_text_def)

theorem hotels_follow_response_witness:
  "places_search sample (hotel_query goa) = Resolved sample_venues \<and>
   length sample_venues \<le> vq_limit (hotel_query goa) \<and>
   venue_rating (sample_venues ! 0) = None \<and>
   venue_categories (sample_venues ! 0) = [] \<and>
   fst (getHotelRecommendations sample goa) = Success (map to_hotel sample_venues) \<and>
   length (map to_hotel sample_venues) \<le> 5 \<and>
   hotel_rating (map to_hotel sample_venues ! 0) = RatingText ''N/A'' \<and>
   hotel_category (map to_hotel sample_venues ! 0) = ''Hotel''"
proof -
  have a: "places_search sample (hotel_query goa) = Resolved sample_venues"
    by (simp add: sample_def)
  have b: "length sample_venues \<le> vq_limit (hotel_query goa)"
    by (simp add: sample_venues_def hotel_query_def)
  have c: "venue_rating (sample_venues ! 0) = None" "venue_categories (sample_venues ! 0) = []"
    "0 < length sample_venues"
    by (simp_all add: sample_venues_def)
  from hotels_follow_response [OF a] b c
  have "fst (getHotelRecommendations sample goa) = Success (map to_hotel sample_venues) \<and>
        length (map to_hotel sample_venues) \<le> 5 \<and>
        hotel_rating (map to_hotel sample_venues ! 0) = RatingText ''N/A'' \<and>
        hotel_category (map to_hotel sample_venues ! 0) = ''Hotel''"
    by blast
  with a b c show ?thesis by blast
qed

subsection \<open>C9\<close>

text \<open>
  C9. When the route is found and the historical lookup fails, \<open>historicalInfo\<close> is null
  and the reply still opens with the route summary (duration and distance); under the
  heading "Historical Information about ..." stands the sentence "No historical
  information available.", followed by empty lines only up to the next heading, with no
  "Read more" link. A search that finds no page is such a failure.
\<close>

theorem missing_history_placeholder:
  assumes "fst (getRouteAndDetails P origin destination (mode_or_default travelMode)) = Success plan"
    and "failed (fst (getHistoricalInfo P destination))"
  shows "historicalInfo plan = None \<and>
         (\<exists>rest. fst (execute P origin destination travelMode) =
            ''Travel Plan: '' @ origin @ '' to '' @ destination @ nl @ nl @
            ''Route Information:'' @ nl @
            ''- Duration: '' @ plan_duration plan @ nl @
            ''- Distance: '' @ plan_distance plan @ nl @ nl @
            ''Detailed directions: '' @ plan_directions plan @ nl @ nl @
            ''Historical Information about '' @ destination @ '':'' @ nl @
            ''No historical information available.'' @ nl @ nl @ nl @
            ''Notable places along the route:'' @ rest) \<and>
         (wiki_search P destination = Resolved (Some []) \<longrightarrow>
            fst (getHistoricalInfo P destination) = Failure ''No historical information found.'')"
proof -
  from assms(1) obtain oc dc r where p: "plan = assemble P destination (mode_or_default travelMode) oc dc r"
    unfolding getRouteAndDetails_Success by blast
  have none: "historicalInfo plan = None"
    using assms(2) by (auto simp: p assemble_def or_else_def failed_def split: result.splits)
  have "fst (execute P origin destination travelMode) = render origin destination plan"
    using assms(1) by (rule execute_Success)
  then have "fst (execute P origin destination travelMode) =
            ''Travel Plan: '' @ origin @ '' to '' @ destination @ nl @ nl @
            ''Route Information:'' @ nl @
            ''- Duration: '' @ plan_duration plan @ nl @
            ''- Distance: '' @ plan_distance plan @ nl @ nl @
            ''Detailed directions: '' @ plan_directions plan @ nl @ nl @
            ''Historical Information about '' @ destination @ '':'' @ nl @
            ''No historical information available.'' @ nl @ nl @ nl @
            ''Notable places along the route:'' @
            (nl @ placesAlongRouteDescription (placesAlongRoute plan) @ nl @ nl @
             ''Popular places to visit at '' @ destination @ '':'' @ nl @
             popularPlacesDescription (popularPlaces plan) @ nl @ nl @
             ''Recommended Hotels:'' @ nl @ hotelRecommendations (hotels plan) @ nl @ nl @
             ''Interactive Maps:'' @ nl @
             ''- [Google Maps Directions]('' @ googleMapsUrl plan @ '')'' @ nl @ nl @
             ''Note: Click the links to view interactive maps and more details about places and hotels.'')"
    by (simp add: render_def none historical_summary_def historical_source_def)
  then have "\<exists>rest. fst (execute P origin destination travelMode) =
            ''Travel Plan: '' @ origin @ '' to '' @ destination @ nl @ nl @
            ''Route Information:'' @ nl @
            ''- Duration: '' @ plan_duration plan @ nl @
            ''- Distance: '' @ plan_distance plan @ nl @ nl @
            ''Detailed directions: '' @ plan_directions plan @ nl @ nl @
            ''Historical Information about '' @ destination @ '':'' @ nl @
            ''No historical information available.'' @ nl @ nl @ nl @
            ''Notable places along the route:'' @ rest"
    by (rule exI)
  moreover have "wiki_search P destination = Resolved (Some []) \<longrightarrow>
            fst (getHistoricalInfo P destination) = Failure ''No historical information found.''"
    by (simp add: getHistoricalInfo_def)
  ultimately show ?thesis using none by blast
qed

theorem missing_history_placeholder_witness:
  "failed (fst (getHistoricalInfo no_aux ''Goa'')) \<and>
   map_result (\<lambda>plan. (plan_duration plan, plan_distance plan, plan_directions plan,
       historicalInfo plan))
     (fst (getRouteAndDetails no_aux ''Pune'' ''Goa'' (mode_or_default None))) =
     Success (''2 minutes'', ''1.50 km'',
       ''Head north -> Turn left -> Merge right -> Keep straight -> Take the exit -> Cross the river -> Turn right -> Turn left again -> Arrive'',
       None) \<and>
   (\<exists>rest. fst (execute no_aux ''Pune'' ''Goa'' None) =
      ''Travel Plan: Pune to Goa'' @ nl @ nl @
      ''Route Information:'' @ nl @
      ''- Duration: 2 minutes'' @ nl @
      ''- Distance: 1.50 km'' @ nl @ nl @
      ''Detailed directions: Head north -> Turn left -> Merge right -> Keep straight -> Take the exit -> Cross the river -> Turn right -> Turn left again -> Arrive'' @ nl @ nl @
      ''Historical Information about Goa:'' @ nl @
      ''No historical information available.'' @ nl @ nl @ nl @
      ''Notable places along the route:'' @ rest)"
proof -
  have f: "failed (fst (getHistoricalInfo no_aux ''Goa''))" by code_simp
  have v: "map_result (\<lambda>plan. (plan_duration plan, plan_distance plan, plan_directions plan,
       historicalInfo plan))
     (fst (getRouteAndDetails no_aux ''Pune'' ''Goa'' (mode_or_default None))) =
     Success (''2 minutes'', ''1.50 km'',
       ''Head north -> Turn left -> Merge right -> Keep straight -> Take the exit -> Cross the river -> Turn right -> Turn left again -> Arrive'',
       None)"
    by code_simp
  then obtain plan
    where plan: "fst (getRouteAndDetails no_aux ''Pune'' ''Goa'' (mode_or_default None)) =
      Success plan"
    by (cases "fst (getRouteAndDetails no_aux ''Pune'' ''Goa'' (mode_or_default None))") simp_all
  from v plan have fields: "plan_duration plan = ''2 minutes''" "plan_distance plan = ''1.50 km''"
    "plan_directions plan = ''Head north -> Turn left -> Merge right -> Keep straight -> Take the exit -> Cross the river -> Turn right -> Turn left again -> Arrive''"
    by simp_all
  from missing_history_placeholder [OF plan f]
  have "\<exists>rest. fst (execute no_aux ''Pune'' ''Goa'' None) =
            ''Travel Plan: '' @ ''Pune'' @ '' to '' @ ''Goa'' @ nl @ nl @
            ''Route Information:'' @ nl @
            ''- Duration: '' @ plan_duration plan @ nl @
            ''- Distance: '' @ plan_distance plan @ nl @ nl @
            ''Detailed directions: '' @ plan_directions plan @ nl @ nl @
            ''Historical Information about '' @ ''Goa'' @ '':'' @ nl @
            ''No historical information available.'' @ nl @ nl @ nl @
            ''Notable places along the route:'' @ rest"
    by blast
  then have "\<exists>rest. fst (execute no_aux ''Pune'' ''Goa'' None) =
      ''Travel Plan: Pune to Goa'' @ nl @ nl @
      ''Route Information:'' @ nl @
      ''- Duration: 2 minutes'' @ nl @
      ''- Distance: 1.50 km'' @ nl @ nl @
      ''Detailed directions: Head north -> Turn left -> Merge right -> Keep straight -> Take the exit -> Cross the river -> Turn right -> Turn left again -> Arrive'' @ nl @ nl @
      ''Historical Information about Goa:'' @ nl @
      ''No historical information available.'' @ nl @ nl @ nl @
      ''Notable places along the route:'' @ rest"
    unfolding fields by simp
  with f v show ?thesis by blast
qed

subsection \<open>C10\<close>

text \<open>
  C10. Let the search for popular places return a non-empty list. If the summary of
  one of the results that are fetched (the first five) cannot be fetched, the wrapper
  returns the failure "Failed to get popular places from Wikipedia." and no list, also
  when earlier summaries were fetched. Otherwise it returns one place for each of the
  first five results, in their order. So \<open>popularPlaces\<close> of the travel plan is either
  empty or that full list, never a part of it.
\<close>

theorem popular_places_all_or_nothing:
  assumes "wiki_search P (destination @ '' tourist attractions'') = Resolved (Some searchResults)"
    and "searchResults \<noteq> []"
  shows "((\<exists>i < min (length searchResults) 5.
             wiki_summary P (hit_title (searchResults ! i)) = Rejected) \<longrightarrow>
            fst (getPopularPlaces P destination) =
              Failure ''Failed to get popular places from Wikipedia.'' \<and>
            (fst (getRouteAndDetails P origin destination travelMode) = Success plan \<longrightarrow>
               popularPlaces plan = [])) \<and>
         (fst (getPopularPlaces P destination) =
            Failure ''Failed to get popular places from Wikipedia.'' \<or>
          (\<exists>places. fst (getPopularPlaces P destination) = Success places \<and>
             length places = min (length searchResults) 5 \<and>
             list_all2 (\<lambda>h p. \<exists>s. wiki_summary P (hit_title h) = Resolved s \<and> p = summary_place s)
               (take 5 searchResults) places)) \<and>
         (fst (getRouteAndDetails P origin destination travelMode) = Success plan \<longrightarrow>
            popularPlaces plan = [] \<or>
            length (popularPlaces plan) = min (length searchResults) 5 \<and>
            list_all2 (\<lambda>h p. \<exists>s. wiki_summary P (hit_title h) = Resolved s \<and> p = summary_place s)
              (take 5 searchResults) (popularPlaces plan))"
proof -
  let ?q = "destination @ '' tourist attractions''"
  let ?R = "\<lambda>h p. \<exists>s. wiki_summary P (hit_title h) = Resolved s \<and> p = summary_place s"
  let ?fail = "Failure ''Failed to get popular places from Wikipedia.''"
  note res = getPopularPlaces_results [OF assms]
  have pop: "popularPlaces plan = or_else (fst (getPopularPlaces P destination)) [] (\<lambda>places. places)"
    if "fst (getRouteAndDetails P origin destination travelMode) = Success plan"
    using that unfolding getRouteAndDetails_Success by (auto simp: assemble_def)
  have rejected: "fst (getPopularPlaces P destination) = ?fail"
    if "\<exists>i < min (length searchResults) 5. wiki_summary P (hit_title (searchResults ! i)) = Rejected"
  proof -
    from that obtain i where "i < min (length searchResults) 5"
      "wiki_summary P (hit_title (searchResults ! i)) = Rejected" by blast
    then have "fst (fetch_summaries P searchResults 0 [] [SearchRequest ?q]) = None"
      using fetch_summaries_rejected [of 0 i searchResults P "[]" "[SearchRequest ?q]"] by simp
    then show ?thesis by (simp add: res)
  qed
  have dichotomy: "fst (getPopularPlaces P destination) = ?fail \<or>
          (\<exists>places. fst (getPopularPlaces P destination) = Success places \<and>
             length places = min (length searchResults) 5 \<and>
             list_all2 ?R (take 5 searchResults) places)"
  proof (cases "fst (fetch_summaries P searchResults 0 [] [SearchRequest ?q])")
    case None
    then show ?thesis by (simp add: res)
  next
    case (Some places)
    from fetch_summaries_resolved [OF Some] have all: "list_all2 ?R (take 5 searchResults) places"
      by simp
    then have "length places = min (length searchResults) 5"
      using list_all2_lengthD [OF all] by (simp add: min.commute)
    with all Some show ?thesis by (simp add: res)
  qed
  have plan_places: "popularPlaces plan = [] \<or>
            length (popularPlaces plan) = min (length searchResults) 5 \<and>
            list_all2 ?R (take 5 searchResults) (popularPlaces plan)"
    if "fst (getRouteAndDetails P origin destination travelMode) = Success plan"
    using dichotomy pop [OF that] by (auto simp: or_else_def)
  have plan_empty: "popularPlaces plan = []"
    if "\<exists>i < min (length searchResults) 5. wiki_summary P (hit_title (searchResults ! i)) = Rejected"
      and "fst (getRouteAndDetails P origin destination travelMode) = Success plan"
    using rejected [OF that(1)] pop [OF that(2)] by (simp add: or_else_def)
  show ?thesis
    using rejected dichotomy plan_places plan_empty by blast
qed

theorem popular_places_all_or_nothing_witness:
  "wiki_search flaky (''Goa'' @ '' tourist attractions'') = Resolved (Some sample_hits) \<and>
   sample_hits \<noteq> [] \<and>
   2 < min (length sample_hits) 5 \<and>
   wiki_summary flaky (hit_title (sample_hits ! 0)) \<noteq> Rejected \<and>
   wiki_summary flaky (hit_title (sample_hits ! 1)) \<noteq> Rejected \<and>
   wiki_summary flaky (hit_title (sample_hits ! 2)) = Rejected \<and>
   fst (getPopularPlaces flaky ''Goa'') =
     Failure ''Failed to get popular places from Wikipedia.'' \<and>
   map_result popularPlaces (fst (getRouteAndDetails flaky ''Pune'' ''Goa'' ''driving'')) =
     Success []"
proof -
  have a: "wiki_search flaky (''Goa'' @ '' tourist attractions'') = Resolved (Some sample_hits)"
    by code_simp
  have b: "sample_hits \<noteq> []" by (simp add: sample_hits_def)
  have c: "2 < min (length sample_hits) 5" by (simp add: sample_hits_def)
  have d: "wiki_summary flaky (hit_title (sample_hits ! 0)) \<noteq> Rejected"
    "wiki_summary flaky (hit_title (sample_hits ! 1)) \<noteq> Rejected"
    "wiki_summary flaky (hit_title (sample_hits ! 2)) = Rejected"
    by code_simp+
  have "\<not> failed (fst (getRouteAndDetails flaky ''Pune'' ''Goa'' ''driving''))" by code_simp
  then obtain plan
    where plan: "fst (getRouteAndDetails flaky ''Pune'' ''Goa'' ''driving'') = Success plan"
    by (cases "fst (getRouteAndDetails flaky ''Pune'' ''Goa'' ''driving'')")
      (simp_all add: failed_def)
  from popular_places_all_or_nothing [OF a b, of "''Pune''" "''driving''" plan] c d(3) plan
  have "fst (getPopularPlaces flaky ''Goa'') =
      Failure ''Failed to get popular places from Wikipedia.'' \<and> popularPlaces plan = []"
    by blast
  with a b c d plan show ?thesis by simp
qed

end
